theory Spec2Isabelle
  imports Main "HOL-Library.Sublist"
begin

section \<open>Values, effects and the room channel\<close>

text \<open>
  Event payloads are JavaScript objects; they are kept as JSON values. A handler's visible
  behaviour is the list of effects it performs, in order: an event emitted to a target, a
  line written with \<open>console.error\<close>, or a process started with \<open>execAsync\<close> (its command, working directory and timeout).
  Informational \<open>console.log\<close> lines are not part of the model.
\<close>

datatype json =
    JNull
  | JStr string
  | JNum int
  | JBool bool
  | JArr "json list"
  | JObj "(string \<times> json) list"

text \<open>
  \<open>ToSender\<close> is \<open>socket.emit\<close>, \<open>ToRoomExceptSender r\<close> is \<open>socket.to(r).emit\<close>
  and \<open>ToRoom r\<close> is \<open>io.to(r).emit\<close> (or \<open>namespace.to(r).emit\<close>).
\<close>

datatype target = ToSender | ToRoomExceptSender string | ToRoom string

datatype effect =
    Emit target string json
  | Log string
  | Exec string "string option" "int option"

text \<open>
  An awaited call of an external collaborator (the Prisma client, the file system, a child
  process) either returns or throws an error that carries a message. Where the value
  returned is decided by the modelled tables, only the fact of throwing is an input:
  \<open>None\<close> is a normal return, \<open>Some m\<close> is a thrown error with message \<open>m\<close>.
\<close>

datatype 'a outcome = Returns 'a | Throws string

type_synonym thrown = "string option"

record user =
  user_id :: string
  user_name :: string
  user_avatar :: "string option"

definition opt_json :: "string option \<Rightarrow> json" where
  "opt_json x = (case x of None \<Rightarrow> JNull | Some v \<Rightarrow> JStr v)"

definition user_json :: "user \<Rightarrow> json" where
  "user_json u =
     JObj [(''id'', JStr (user_id u)), (''name'', JStr (user_name u)),
           (''avatar'', opt_json (user_avatar u))]"

definition message :: "string \<Rightarrow> json" where
  "message m = JObj [(''message'', JStr m)]"

section \<open>The durable store\<close>

text \<open>The configuration of a deployment, as the client sends it.\<close>

datatype provider = Vercel | Netlify | Aws | Heroku | GithubPages | Docker

definition provider_name :: "provider \<Rightarrow> string" where
  "provider_name p =
     (case p of Vercel \<Rightarrow> ''vercel'' | Netlify \<Rightarrow> ''netlify'' | Aws \<Rightarrow> ''aws''
      | Heroku \<Rightarrow> ''heroku'' | GithubPages \<Rightarrow> ''github-pages'' | Docker \<Rightarrow> ''docker'')"

text \<open>\<open>config.provider.toUpperCase()\<close>\<close>

definition provider_upper :: "provider \<Rightarrow> string" where
  "provider_upper p =
     (case p of Vercel \<Rightarrow> ''VERCEL'' | Netlify \<Rightarrow> ''NETLIFY'' | Aws \<Rightarrow> ''AWS''
      | Heroku \<Rightarrow> ''HEROKU'' | GithubPages \<Rightarrow> ''GITHUB-PAGES'' | Docker \<Rightarrow> ''DOCKER'')"

record deployment_config =
  cfg_provider :: provider
  cfg_buildCommand :: "string option"
  cfg_outputDirectory :: "string option"
  cfg_environmentVariables :: "(string \<times> string) list"
  cfg_domain :: "string option"
  cfg_framework :: "string option"
  cfg_nodeVersion :: "string option"

text \<open>
  The tables. A deployment row keeps the configuration itself where the column holds its
  JSON text.
\<close>

record room =
  room_id :: string
  room_name :: string
  ownerId :: string
  isPublic :: bool
  members :: "string list"

record project =
  project_id :: string
  project_name :: string
  project_roomId :: string

record project_file =
  file_id :: string
  file_name :: string
  file_path :: string
  file_content :: string
  file_language :: string
  file_projectId :: string
  updatedAt :: int

record cursor =
  cursor_userId :: string
  cursor_fileId :: string
  cursor_position :: int
  cursor_line :: int
  cursor_column :: int
  cursor_selection :: "string option"
  cursor_lastActivity :: int

record db_deployment =
  dbd_id :: string
  dbd_projectId :: string
  dbd_userId :: string
  dbd_provider :: string
  dbd_status :: string
  dbd_config :: deployment_config
  dbd_url :: "string option"
  dbd_error :: "string option"
  dbd_logs :: "string list"
  dbd_endedAt :: "int option"

record git_operation =
  gop_userId :: string
  gop_projectId :: string
  gop_operation :: string
  gop_command :: string
  gop_result :: string
  gop_success :: bool

record store =
  users :: "user list"
  rooms :: "room list"
  projects :: "project list"
  files :: "project_file list"
  cursors :: "cursor list"
  deployments :: "db_deployment list"
  gitOperations :: "git_operation list"

text \<open>
  The access filter every handler passes to Prisma:
  \<open>OR: [{ ownerId: u }, { members: { some: { userId: u } } }]\<close>.
\<close>

definition room_access :: "string \<Rightarrow> room \<Rightarrow> bool" where
  "room_access u r \<longleftrightarrow> ownerId r = u \<or> u \<in> set (members r)"

text \<open>\<open>prisma.room.findFirst({ where: { id, OR: [...] } })\<close>\<close>

definition find_room :: "store \<Rightarrow> string \<Rightarrow> string \<Rightarrow> room option" where
  "find_room db rid u = find (\<lambda>r. room_id r = rid \<and> room_access u r) (rooms db)"

text \<open>
  A project belongs to one room and a file to one project (foreign keys). The filter
  \<open>room: { OR: [...] }\<close> on a project holds when the project's room passes the access
  filter; the filter \<open>project: { room: { OR: [...] } }\<close> on a file likewise.
\<close>

definition project_room :: "store \<Rightarrow> project \<Rightarrow> room option" where
  "project_room db p = find (\<lambda>r. room_id r = project_roomId p) (rooms db)"

definition project_access :: "store \<Rightarrow> string \<Rightarrow> project \<Rightarrow> bool" where
  "project_access db u p \<longleftrightarrow>
     (case project_room db p of None \<Rightarrow> False | Some r \<Rightarrow> room_access u r)"

text \<open>\<open>prisma.project.findFirst({ where: { id: projectId, room: { OR: [...] } } })\<close>\<close>

definition find_project :: "store \<Rightarrow> string \<Rightarrow> string \<Rightarrow> project option" where
  "find_project db pid u = find (\<lambda>p. project_id p = pid \<and> project_access db u p) (projects db)"

definition file_project :: "store \<Rightarrow> project_file \<Rightarrow> project option" where
  "file_project db f = find (\<lambda>p. project_id p = file_projectId f) (projects db)"

definition file_access :: "store \<Rightarrow> string \<Rightarrow> project_file \<Rightarrow> bool" where
  "file_access db u f \<longleftrightarrow>
     (case file_project db f of None \<Rightarrow> False | Some p \<Rightarrow> project_access db u p)"

text \<open>\<open>prisma.projectFile.findFirst({ where: { id: fileId, project: { room: { OR: [...] } } } })\<close>\<close>

definition find_file :: "store \<Rightarrow> string \<Rightarrow> string \<Rightarrow> project_file option" where
  "find_file db fid u = find (\<lambda>f. file_id f = fid \<and> file_access db u f) (files db)"

text \<open>
  \<open>prisma.projectFile.update({ where: { id }, data: { content } })\<close>. The schema of the
  file table is not among the sources: what a write does to the \<open>updatedAt\<close> column is
  the parameter \<open>stamp\<close>, from the old value of the column to the new one.
\<close>

definition update_file_content ::
  "(int \<Rightarrow> int) \<Rightarrow> string \<Rightarrow> string \<Rightarrow> project_file list \<Rightarrow> project_file list" where
  "update_file_content stamp fid content fs =
     map (\<lambda>f. if file_id f = fid
              then f\<lparr>file_content := content, updatedAt := stamp (updatedAt f)\<rparr> else f) fs"

section \<open>Connections and room subscriptions\<close>

text \<open>
  A connection of the main namespace. The \<open>io.use\<close> middleware admits a connection only
  after it has set \<open>socket.userId\<close> and \<open>socket.user\<close>, so both are present in every
  handler of this namespace.
\<close>

record conn =
  conn_id :: string
  conn_userId :: string
  conn_user :: user

text \<open>
  The subscriptions of socket.io: pairs of a socket id and a room name. \<open>socket.join\<close>
  adds a pair unless it is there already; an event sent to a room reaches the sockets
  subscribed to it, without the sender for \<open>socket.to\<close>.
\<close>

type_synonym subscriptions = "(string \<times> string) list"

definition socket_join :: "string \<Rightarrow> string \<Rightarrow> subscriptions \<Rightarrow> subscriptions" where
  "socket_join sid rid subs = (if (sid, rid) \<in> set subs then subs else subs @ [(sid, rid)])"

definition room_sockets :: "subscriptions \<Rightarrow> string \<Rightarrow> string list" where
  "room_sockets subs rid = map fst (filter (\<lambda>p. snd p = rid) subs)"

fun recipients :: "subscriptions \<Rightarrow> string \<Rightarrow> target \<Rightarrow> string list" where
  "recipients subs sender ToSender = [sender]"
| "recipients subs sender (ToRoomExceptSender rid) =
     filter (\<lambda>s. s \<noteq> sender) (room_sockets subs rid)"
| "recipients subs sender (ToRoom rid) = room_sockets subs rid"

section \<open>Collaboration handlers\<close>

record collab_state =
  cs_store :: store
  cs_subs :: subscriptions

text \<open>
  The \<open>join-room\<close> handler. \<open>lookup\<close> is the outcome of the awaited \<open>findFirst\<close>,
  \<open>now\<close> the clock read by \<open>new Date()\<close>.
\<close>

definition join_room ::
  "thrown \<Rightarrow> int \<Rightarrow> collab_state \<Rightarrow> conn \<Rightarrow> string \<Rightarrow> collab_state \<times> effect list" where
  "join_room lookup now s c roomId =
     (case lookup of
        Some e \<Rightarrow>
          (s, [Log ''Join room error:'', Emit ToSender ''error'' (message ''Failed to join room'')])
      | None \<Rightarrow>
          (case find_room (cs_store s) roomId (conn_userId c) of
             None \<Rightarrow>
               (s, [Emit ToSender ''error'' (message ''Room not found or access denied'')])
           | Some r \<Rightarrow>
               (s\<lparr>cs_subs := socket_join (conn_id c) roomId (cs_subs s)\<rparr>,
                [Emit ToSender ''joined-room'' (JObj [(''roomId'', JStr roomId)]),
                 Emit (ToRoomExceptSender roomId) ''user-joined''
                   (JObj [(''user'', user_json (conn_user c)), (''timestamp'', JNum now)])])))"

text \<open>
  The \<open>code-change\<close> handler. \<open>lookup\<close> and \<open>upd\<close> are the outcomes of the
  awaited \<open>findFirst\<close> and \<open>update\<close>; \<open>changes\<close> is passed through untouched.
\<close>

record code_change_data =
  ccd_roomId :: string
  ccd_fileId :: string
  ccd_content :: string
  ccd_changes :: "json list"

definition code_change_failed :: "effect list" where
  "code_change_failed =
     [Log ''Code change error:'', Emit ToSender ''error'' (message ''Failed to update code'')]"

definition code_change ::
  "thrown \<Rightarrow> thrown \<Rightarrow> (int \<Rightarrow> int) \<Rightarrow> int \<Rightarrow> collab_state \<Rightarrow> conn \<Rightarrow> code_change_data
     \<Rightarrow> collab_state \<times> effect list" where
  "code_change lookup upd stamp now s c d =
     (case lookup of
        Some e \<Rightarrow> (s, code_change_failed)
      | None \<Rightarrow>
          (case find_file (cs_store s) (ccd_fileId d) (conn_userId c) of
             None \<Rightarrow> (s, [Emit ToSender ''error'' (message ''File not found or access denied'')])
           | Some f \<Rightarrow>
               (case upd of
                  Some e \<Rightarrow> (s, code_change_failed)
                | None \<Rightarrow>
                    (s\<lparr>cs_store := (cs_store s)\<lparr>files :=
                         update_file_content stamp (ccd_fileId d) (ccd_content d)
                           (files (cs_store s))\<rparr>\<rparr>,
                     [Emit (ToRoomExceptSender (ccd_roomId d)) ''code-change''
                        (JObj [(''fileId'', JStr (ccd_fileId d)),
                               (''content'', JStr (ccd_content d)),
                               (''changes'', JArr (ccd_changes d)),
                               (''user'', user_json (conn_user c)),
                               (''timestamp'', JNum now)])]))))"

text \<open>
  The \<open>cursor-update\<close> handler. The upsert is keyed by (user, file). A field that is
  \<open>undefined\<close> in the \<open>update\<close> data is left as it is by Prisma; the row created
  takes the clock for its last activity.
\<close>

record cursor_data =
  cud_roomId :: string
  cud_fileId :: string
  cud_position :: int
  cud_line :: int
  cud_column :: int
  cud_selection :: "string option"

definition cursor_matches :: "string \<Rightarrow> string \<Rightarrow> cursor \<Rightarrow> bool" where
  "cursor_matches u fid k \<longleftrightarrow> cursor_userId k = u \<and> cursor_fileId k = fid"

definition upsert_cursor :: "int \<Rightarrow> string \<Rightarrow> cursor_data \<Rightarrow> cursor list \<Rightarrow> cursor list" where
  "upsert_cursor now u d ks =
     (if list_ex (cursor_matches u (cud_fileId d)) ks
      then map (\<lambda>k. if cursor_matches u (cud_fileId d) k
                    then k\<lparr>cursor_position := cud_position d, cursor_line := cud_line d,
                           cursor_column := cud_column d,
                           cursor_selection :=
                             (case cud_selection d of None \<Rightarrow> cursor_selection k
                              | Some v \<Rightarrow> Some v),
                           cursor_lastActivity := now\<rparr>
                    else k) ks
      else ks @ [\<lparr>cursor_userId = u, cursor_fileId = cud_fileId d,
                   cursor_position = cud_position d, cursor_line = cud_line d,
                   cursor_column = cud_column d, cursor_selection = cud_selection d,
                   cursor_lastActivity = now\<rparr>])"

definition cursor_update ::
  "thrown \<Rightarrow> int \<Rightarrow> collab_state \<Rightarrow> conn \<Rightarrow> cursor_data \<Rightarrow> collab_state \<times> effect list" where
  "cursor_update upsert now s c d =
     (case upsert of
        Some e \<Rightarrow> (s, [Log ''Cursor update error:''])
      | None \<Rightarrow>
          (s\<lparr>cs_store := (cs_store s)\<lparr>cursors :=
               upsert_cursor now (conn_userId c) d (cursors (cs_store s))\<rparr>\<rparr>,
           [Emit (ToRoomExceptSender (cud_roomId d)) ''cursor-update''
              (JObj [(''fileId'', JStr (cud_fileId d)),
                     (''position'', JNum (cud_position d)),
                     (''line'', JNum (cud_line d)),
                     (''column'', JNum (cud_column d)),
                     (''selection'', opt_json (cud_selection d)),
                     (''user'', user_json (conn_user c)),
                     (''timestamp'', JNum now)])]))"

section \<open>Editor bridge handlers\<close>

text \<open>
  A connection of the \<open>/ide\<close> namespace. No middleware runs there: \<open>userId\<close>, \<open>user\<close>
  and \<open>ideInfo\<close> are absent until \<open>register-ide\<close> has set them.
\<close>

record ide_info =
  ide_type :: string
  ide_version :: string
  ide_workspacePath :: string

record ide_socket =
  ide_sid :: string
  ide_userId :: "string option"
  ide_user :: "user option"
  ide_ideInfo :: "ide_info option"

datatype connection_status = Connected | Disconnected | Syncing

record ide_connection =
  ic_id :: string
  ic_userId :: string
  ic_roomId :: string
  ic_ideType :: string
  ic_version :: string
  ic_workspacePath :: string
  ic_status :: connection_status
  ic_lastSync :: int
  ic_socketId :: string

record bridge_state =
  bs_store :: store
  bs_subs :: subscriptions
  bs_ideConnections :: "ide_connection list"

text \<open>
  JavaScript truthiness of an optional string (\<open>undefined\<close> and the empty string are
  falsy), and \<open>x || d\<close> on it.
\<close>

definition truthy :: "string option \<Rightarrow> bool" where
  "truthy x \<longleftrightarrow> (case x of None \<Rightarrow> False | Some v \<Rightarrow> v \<noteq> [])"

definition or_else :: "string option \<Rightarrow> string \<Rightarrow> string" where
  "or_else x d = (case x of None \<Rightarrow> d | Some v \<Rightarrow> if v = [] then d else v)"

text \<open>The user id of a socket whose \<open>userId\<close> is truthy.\<close>

definition authenticated_user :: "ide_socket \<Rightarrow> string option" where
  "authenticated_user sock =
     (case ide_userId sock of None \<Rightarrow> None | Some u \<Rightarrow> if u = [] then None else Some u)"

definition opt_user_json :: "user option \<Rightarrow> json" where
  "opt_user_json u = (case u of None \<Rightarrow> JNull | Some v \<Rightarrow> user_json v)"

subsection \<open>sync-files\<close>

record sync_file =
  sf_relativePath :: string
  sf_content :: string
  sf_lastModified :: int

record sync_data =
  sd_roomId :: string
  sd_projectId :: string
  sd_files :: "sync_file list"

datatype sync_status = Created | Updated | Skipped | Errored

record sync_result =
  sr_path :: string
  sr_status :: sync_status
  sr_fileId :: "string option"
  sr_error :: "string option"

definition sync_status_name :: "sync_status \<Rightarrow> string" where
  "sync_status_name st =
     (case st of Created \<Rightarrow> ''created'' | Updated \<Rightarrow> ''updated''
      | Skipped \<Rightarrow> ''skipped'' | Errored \<Rightarrow> ''error'')"

definition sync_result_json :: "sync_result \<Rightarrow> json" where
  "sync_result_json r =
     JObj ([(''path'', JStr (sr_path r)), (''status'', JStr (sync_status_name (sr_status r)))]
           @ (case sr_fileId r of None \<Rightarrow> [] | Some i \<Rightarrow> [(''fileId'', JStr i)])
           @ (case sr_error r of None \<Rightarrow> [] | Some e \<Rightarrow> [(''error'', JStr e)]))"

text \<open>
  Node's \<open>path.basename\<close>, \<open>path.extname\<close> and \<open>String.toLowerCase\<close> are library code
  and enter as parameters.
\<close>

record path_lib =
  basename :: "string \<Rightarrow> string"
  extname :: "string \<Rightarrow> string"
  toLowerCase :: "string \<Rightarrow> string"

definition languageMap :: "(string \<times> string) list" where
  "languageMap =
     [(''.js'', ''javascript''), (''.jsx'', ''javascript''), (''.ts'', ''typescript''),
      (''.tsx'', ''typescript''), (''.py'', ''python''), (''.go'', ''go''), (''.rs'', ''rust''),
      (''.java'', ''java''), (''.cpp'', ''cpp''), (''.c'', ''c''), (''.cs'', ''csharp''),
      (''.php'', ''php''), (''.rb'', ''ruby''), (''.swift'', ''swift''), (''.kt'', ''kotlin''),
      (''.dart'', ''dart''), (''.html'', ''html''), (''.css'', ''css''), (''.scss'', ''scss''),
      (''.sass'', ''sass''), (''.json'', ''json''), (''.xml'', ''xml''), (''.yaml'', ''yaml''),
      (''.yml'', ''yaml''), (''.md'', ''markdown''), (''.sql'', ''sql''), (''.sh'', ''bash''),
      (''.bash'', ''bash'')]"

definition getLanguageFromExtension :: "path_lib \<Rightarrow> string \<Rightarrow> string" where
  "getLanguageFromExtension lib filePath =
     (case map_of languageMap (toLowerCase lib (extname lib filePath)) of
        None \<Rightarrow> ''text'' | Some l \<Rightarrow> l)"

text \<open>
  What the environment decides for one file of the batch: whether the lookup of the stored
  file throws, whether the write (update or create) throws, and the id and timestamp the
  store gives a created row.
\<close>

record file_env =
  fe_find :: thrown
  fe_write :: thrown
  fe_newId :: string
  fe_createdAt :: int

text \<open>\<open>prisma.projectFile.findFirst({ where: { projectId, path } })\<close>\<close>

definition find_by_path :: "store \<Rightarrow> string \<Rightarrow> string \<Rightarrow> project_file option" where
  "find_by_path db pid p = find (\<lambda>f. file_projectId f = pid \<and> file_path f = p) (files db)"

definition sync_failed :: "store \<Rightarrow> sync_file \<Rightarrow> string \<Rightarrow> store \<times> sync_result \<times> effect list" where
  "sync_failed db file e =
     (db, \<lparr>sr_path = sf_relativePath file, sr_status = Errored, sr_fileId = None,
            sr_error = Some e\<rparr>,
      [Log (''Error syncing file '' @ sf_relativePath file @ '':'')])"

text \<open>The body of the per-file loop, with its own \<open>try\<close>/\<open>catch\<close>.\<close>

definition sync_one ::
  "path_lib \<Rightarrow> (int \<Rightarrow> int) \<Rightarrow> file_env \<Rightarrow> string \<Rightarrow> sync_file \<Rightarrow> store
     \<Rightarrow> store \<times> sync_result \<times> effect list" where
  "sync_one lib stamp fe pid file db =
     (case fe_find fe of
        Some e \<Rightarrow> sync_failed db file e
      | None \<Rightarrow>
          (case find_by_path db pid (sf_relativePath file) of
             Some existingFile \<Rightarrow>
               (if sf_lastModified file > updatedAt existingFile
                then (case fe_write fe of
                        Some e \<Rightarrow> sync_failed db file e
                      | None \<Rightarrow>
                          (db\<lparr>files := update_file_content stamp (file_id existingFile)
                                          (sf_content file) (files db)\<rparr>,
                           \<lparr>sr_path = sf_relativePath file, sr_status = Updated,
                            sr_fileId = None, sr_error = None\<rparr>, []))
                else (db, \<lparr>sr_path = sf_relativePath file, sr_status = Skipped,
                           sr_fileId = None, sr_error = None\<rparr>, []))
           | None \<Rightarrow>
               (case fe_write fe of
                  Some e \<Rightarrow> sync_failed db file e
                | None \<Rightarrow>
                    (db\<lparr>files := files db @
                        [\<lparr>file_id = fe_newId fe,
                          file_name = basename lib (sf_relativePath file),
                          file_path = sf_relativePath file,
                          file_content = sf_content file,
                          file_language = getLanguageFromExtension lib (sf_relativePath file),
                          file_projectId = pid,
                          updatedAt = fe_createdAt fe\<rparr>]\<rparr>,
                     \<lparr>sr_path = sf_relativePath file, sr_status = Created,
                      sr_fileId = Some (fe_newId fe), sr_error = None\<rparr>, []))))"

text \<open>The loop \<open>for (const file of files)\<close>; the environment of the i-th file is \<open>env i\<close>.\<close>

fun sync_loop ::
  "path_lib \<Rightarrow> (int \<Rightarrow> int) \<Rightarrow> (nat \<Rightarrow> file_env) \<Rightarrow> string \<Rightarrow> nat \<Rightarrow> sync_file list \<Rightarrow> store
     \<Rightarrow> store \<times> sync_result list \<times> effect list" where
  "sync_loop lib stamp env pid i [] db = (db, [], [])"
| "sync_loop lib stamp env pid i (file # rest) db =
     (case sync_one lib stamp (env i) pid file db of
        (db1, r, fx) \<Rightarrow>
          (case sync_loop lib stamp env pid (Suc i) rest db1 of
             (db2, rs, fxs) \<Rightarrow> (db2, r # rs, fx @ fxs)))"

text \<open>
  The connection record of the socket is the first one, in insertion order, with the
  socket's id; the handler refreshes it.
\<close>

fun touch_connection :: "int \<Rightarrow> string \<Rightarrow> ide_connection list \<Rightarrow> ide_connection list" where
  "touch_connection now sid [] = []"
| "touch_connection now sid (c # cs) =
     (if ic_socketId c = sid then c\<lparr>ic_lastSync := now, ic_status := Connected\<rparr> # cs
      else c # touch_connection now sid cs)"

definition sync_files ::
  "thrown \<Rightarrow> path_lib \<Rightarrow> (int \<Rightarrow> int) \<Rightarrow> (nat \<Rightarrow> file_env) \<Rightarrow> int \<Rightarrow> bridge_state \<Rightarrow> ide_socket
     \<Rightarrow> sync_data \<Rightarrow> bridge_state \<times> effect list" where
  "sync_files lookup lib stamp env now s sock d =
     (case authenticated_user sock of
        None \<Rightarrow> (s, [Emit ToSender ''sync-error'' (message ''Not authenticated'')])
      | Some u \<Rightarrow>
        (case lookup of
           Some e \<Rightarrow>
             (s, [Log ''File sync error:'',
                  Emit ToSender ''sync-error'' (message ''Failed to sync files'')])
         | None \<Rightarrow>
             (case find_project (bs_store s) (sd_projectId d) u of
                None \<Rightarrow> (s, [Emit ToSender ''sync-error'' (message ''Project access denied'')])
              | Some p \<Rightarrow>
                  (case sync_loop lib stamp env (sd_projectId d) 0 (sd_files d) (bs_store s) of
                     (db, syncResults, fx) \<Rightarrow>
                       (s\<lparr>bs_store := db,
                          bs_ideConnections :=
                            touch_connection now (ide_sid sock) (bs_ideConnections s)\<rparr>,
                        fx @
                        [Emit ToSender ''sync-complete''
                           (JObj [(''results'', JArr (map sync_result_json syncResults))]),
                         Emit (ToRoomExceptSender (sd_roomId d)) ''files-synced''
                           (JObj [(''user'', opt_user_json (ide_user sock)),
                                  (''ideType'', opt_json (map_option ide_type (ide_ideInfo sock))),
                                  (''fileCount'', JNum (int (length (sd_files d)))),
                                  (''timestamp'', JNum now)])])))))"

subsection \<open>pull-files\<close>

record pull_data =
  pd_roomId :: string
  pd_projectId :: string
  pd_lastSync :: "int option"

text \<open>
  The \<open>where\<close> clause: the project id, and \<open>updatedAt > lastSync\<close> only when \<open>lastSync\<close>
  is truthy (present and not 0).
\<close>

definition pull_filter :: "string \<Rightarrow> int option \<Rightarrow> project_file \<Rightarrow> bool" where
  "pull_filter pid lastSync f \<longleftrightarrow>
     file_projectId f = pid \<and>
     (case lastSync of None \<Rightarrow> True | Some t \<Rightarrow> t = 0 \<or> updatedAt f > t)"

definition pulled_file_json :: "project_file \<Rightarrow> json" where
  "pulled_file_json f =
     JObj [(''id'', JStr (file_id f)), (''name'', JStr (file_name f)),
           (''relativePath'', JStr (file_path f)), (''content'', JStr (file_content f)),
           (''language'', JStr (file_language f)), (''lastModified'', JNum (updatedAt f))]"

definition pull_files ::
  "thrown \<Rightarrow> bridge_state \<Rightarrow> ide_socket \<Rightarrow> pull_data \<Rightarrow> bridge_state \<times> effect list" where
  "pull_files lookup s sock d =
     (case authenticated_user sock of
        None \<Rightarrow> (s, [Emit ToSender ''pull-error'' (message ''Not authenticated'')])
      | Some u \<Rightarrow>
        (case lookup of
           Some e \<Rightarrow>
             (s, [Log ''Pull files error:'',
                  Emit ToSender ''pull-error'' (message ''Failed to pull files'')])
         | None \<Rightarrow>
             (s, [Emit ToSender ''files-pulled''
                    (JObj [(''files'',
                       JArr (map pulled_file_json
                              (filter (pull_filter (pd_projectId d) (pd_lastSync d))
                                 (files (bs_store s)))))])])))"

subsection \<open>execute-command\<close>

record command_data =
  cd_roomId :: string
  cd_projectId :: string
  cd_command :: string
  cd_workingDirectory :: "string option"

text \<open>
  The error a failed \<open>execAsync\<close> rejects with: a message and, when the process ran,
  what it wrote. A process that exits normally yields its standard output and error.
\<close>

record exec_error =
  ee_message :: string
  ee_stdout :: "string option"
  ee_stderr :: "string option"

type_synonym exec_result = "exec_error + (string \<times> string)"

definition safeCommands :: "string list" where
  "safeCommands =
     [''npm install'', ''npm run build'', ''npm run test'', ''npm run lint'',
      ''yarn install'', ''yarn build'', ''yarn test'', ''yarn lint'',
      ''pnpm install'', ''pnpm build'', ''pnpm test'', ''pnpm lint'',
      ''python -m pytest'', ''python -m pip install -r requirements.txt'',
      ''go build'', ''go test'', ''go mod tidy'',
      ''cargo build'', ''cargo test'', ''cargo check'']"

text \<open>\<open>safeCommands.some(safe => command.startsWith(safe))\<close>\<close>

definition command_allowed :: "string \<Rightarrow> bool" where
  "command_allowed command \<longleftrightarrow> list_ex (\<lambda>safe. prefix safe command) safeCommands"

text \<open>\<open>workingDirectory || socket.ideInfo?.workspacePath\<close>\<close>

definition command_cwd :: "ide_socket \<Rightarrow> command_data \<Rightarrow> string option" where
  "command_cwd sock d =
     (if truthy (cd_workingDirectory d) then cd_workingDirectory d
      else map_option ide_workspacePath (ide_ideInfo sock))"

definition execute_command ::
  "exec_result \<Rightarrow> int \<Rightarrow> bridge_state \<Rightarrow> ide_socket \<Rightarrow> command_data
     \<Rightarrow> bridge_state \<times> effect list" where
  "execute_command run now s sock d =
     (case authenticated_user sock of
        None \<Rightarrow> (s, [Emit ToSender ''command-error'' (message ''Not authenticated'')])
      | Some u \<Rightarrow>
        (if \<not> command_allowed (cd_command d)
         then (s, [Emit ToSender ''command-error'' (message ''Command not allowed'')])
         else
           (s, [Emit ToSender ''command-started''
                  (JObj [(''command'', JStr (cd_command d)),
                         (''cwd'', opt_json (command_cwd sock d))]),
                Exec (cd_command d) (command_cwd sock d) (Some 300000)] @
               (case run of
                  Inr (stdout, stderr) \<Rightarrow>
                    [Emit ToSender ''command-completed''
                       (JObj [(''command'', JStr (cd_command d)), (''stdout'', JStr stdout),
                              (''stderr'', JStr stderr), (''success'', JBool True),
                              (''timestamp'', JNum now)]),
                     Emit (ToRoomExceptSender (cd_roomId d)) ''team-command-executed''
                       (JObj [(''user'', opt_user_json (ide_user sock)),
                              (''command'', JStr (cd_command d)), (''success'', JBool True),
                              (''timestamp'', JNum now)])]
                | Inl err \<Rightarrow>
                    [Log ''Command execution error:'',
                     Emit ToSender ''command-completed''
                       (JObj [(''command'', JStr (cd_command d)),
                              (''stdout'', JStr (or_else (ee_stdout err) [])),
                              (''stderr'', JStr (or_else (ee_stderr err) (ee_message err))),
                              (''success'', JBool False), (''timestamp'', JNum now)]),
                     Emit (ToRoomExceptSender (cd_roomId d)) ''team-command-executed''
                       (JObj [(''user'', opt_user_json (ide_user sock)),
                              (''command'', JStr (cd_command d)), (''success'', JBool False),
                              (''error'', JStr (ee_message err)),
                              (''timestamp'', JNum now)])]))))"

text \<open>The commands of the processes a list of effects starts.\<close>

fun spawned :: "effect list \<Rightarrow> string list" where
  "spawned [] = []"
| "spawned (Exec command cwd timeout # fx) = command # spawned fx"
| "spawned (e # fx) = spawned fx"

subsection \<open>git-operation\<close>

record git_params =
  gp_files :: "string list option"
  gp_message :: "string option"
  gp_remote :: "string option"
  gp_branch :: "string option"

record git_data =
  gd_roomId :: string
  gd_projectId :: string
  gd_operation :: string
  gd_params :: git_params

text \<open>\<open>Array.join(' ')\<close>\<close>

fun join_spaces :: "string list \<Rightarrow> string" where
  "join_spaces [] = []"
| "join_spaces [x] = x"
| "join_spaces (x # y # ys) = x @ '' '' @ join_spaces (y # ys)"

text \<open>The double quote character, as a string.\<close>

definition dquote :: string where
  "dquote = [CHR 0x22]"

text \<open>The \<open>switch\<close> over the operation name; \<open>None\<close> is its throwing \<open>default\<close>.\<close>

definition git_command :: "git_data \<Rightarrow> string option" where
  "git_command d =
     (let p = gd_params d; operation = gd_operation d in
      if operation = ''status'' then Some ''git status --porcelain''
      else if operation = ''add'' then
        Some (''git add '' @
          or_else (map_option join_spaces (gp_files p)) ''.'')
      else if operation = ''commit'' then
        Some (''git commit -m '' @ dquote @ or_else (gp_message p) ''Collaborative commit''
              @ dquote)
      else if operation = ''push'' then
        Some (''git push '' @ or_else (gp_remote p) ''origin'' @ '' '' @
              or_else (gp_branch p) ''main'')
      else if operation = ''pull'' then
        Some (''git pull '' @ or_else (gp_remote p) ''origin'' @ '' '' @
              or_else (gp_branch p) ''main'')
      else if operation = ''branch'' then Some ''git branch -a''
      else None)"

definition git_result :: "string \<Rightarrow> string \<Rightarrow> string \<Rightarrow> bool \<Rightarrow> effect" where
  "git_result operation stdout stderr success =
     Emit ToSender ''git-result''
       (JObj [(''operation'', JStr operation), (''stdout'', JStr stdout),
              (''stderr'', JStr stderr), (''success'', JBool success)])"

text \<open>The workspace path of a socket whose \<open>ideInfo?.workspacePath\<close> is truthy.\<close>

definition registered_workspace :: "ide_socket \<Rightarrow> string option" where
  "registered_workspace sock =
     (case ide_ideInfo sock of
        None \<Rightarrow> None
      | Some i \<Rightarrow> if ide_workspacePath i = [] then None else Some (ide_workspacePath i))"

text \<open>
  \<open>run\<close> is the outcome of the git command, \<open>audit\<close> that of
  \<open>prisma.gitOperation.create\<close>.
\<close>

definition git_operation ::
  "exec_result \<Rightarrow> thrown \<Rightarrow> int \<Rightarrow> bridge_state \<Rightarrow> ide_socket \<Rightarrow> git_data
     \<Rightarrow> bridge_state \<times> effect list" where
  "git_operation run audit now s sock d =
     (case (authenticated_user sock, registered_workspace sock) of
        (Some u, Some workspacePath) \<Rightarrow>
          (case git_command d of
             None \<Rightarrow>
               (s, [Log ''Git operation error:'',
                    git_result (gd_operation d) [] ''Invalid git operation'' False])
           | Some command \<Rightarrow>
               (case run of
                  Inl err \<Rightarrow>
                    (s, [Exec command (Some workspacePath) None,
                         Log ''Git operation error:'',
                         git_result (gd_operation d) (or_else (ee_stdout err) [])
                           (or_else (ee_stderr err) (ee_message err)) False])
                | Inr (stdout, stderr) \<Rightarrow>
                    (case audit of
                       Some e \<Rightarrow>
                         (s, [Exec command (Some workspacePath) None,
                              git_result (gd_operation d) stdout stderr True,
                              Log ''Git operation error:'',
                              git_result (gd_operation d) [] e False])
                     | None \<Rightarrow>
                         (s\<lparr>bs_store := (bs_store s)\<lparr>gitOperations :=
                              gitOperations (bs_store s) @
                                [\<lparr>gop_userId = u, gop_projectId = gd_projectId d,
                                  gop_operation = gd_operation d, gop_command = command,
                                  gop_result = stdout, gop_success = True\<rparr>]\<rparr>\<rparr>,
                          [Exec command (Some workspacePath) None,
                           git_result (gd_operation d) stdout stderr True,
                           Emit (ToRoomExceptSender (gd_roomId d)) ''team-git-operation''
                             (JObj [(''user'', opt_user_json (ide_user sock)),
                                    (''operation'', JStr (gd_operation d)),
                                    (''success'', JBool True),
                                    (''timestamp'', JNum now)])]))))
      | _ \<Rightarrow> (s, [Emit ToSender ''git-error'' (message ''IDE not properly connected'')]))"

section \<open>Deployment orchestrator\<close>

datatype deployment_status = Pending | Building | Deploying | Success | Failed

definition status_name :: "deployment_status \<Rightarrow> string" where
  "status_name st =
     (case st of Pending \<Rightarrow> ''pending'' | Building \<Rightarrow> ''building''
      | Deploying \<Rightarrow> ''deploying'' | Success \<Rightarrow> ''success'' | Failed \<Rightarrow> ''failed'')"

record deployment =
  dep_id :: string
  dep_status :: deployment_status
  dep_progress :: int
  dep_logs :: "string list"
  dep_url :: "string option"
  dep_error :: "string option"
  dep_startTime :: int
  dep_endTime :: "int option"

definition deployment_json :: "deployment \<Rightarrow> json" where
  "deployment_json d =
     JObj [(''id'', JStr (dep_id d)), (''status'', JStr (status_name (dep_status d))),
           (''progress'', JNum (dep_progress d)), (''logs'', JArr (map JStr (dep_logs d))),
           (''startTime'', JNum (dep_startTime d))]"

text \<open>The clock: \<open>new Date()\<close> in milliseconds and its \<open>toISOString()\<close>.\<close>

record clock =
  clk_now :: int
  clk_iso :: string

text \<open>
  A call of \<open>processDeployment\<close> in flight: the await it is suspended at and the
  arguments it was called with. The error caught by its \<open>catch\<close> block stays with the
  last await of that block.
\<close>

datatype pc =
    AwaitMkdir
  | AwaitWrite
  | AwaitInstall
  | AwaitBuild
  | AwaitDeploy
  | AwaitPersist
  | AwaitCleanup
  | AwaitFailPersist string
  | Finished

record task =
  t_pc :: pc
  t_config :: deployment_config
  t_project :: project
  t_files :: "project_file list"
  t_room :: room
  t_user :: user
  t_roomId :: string

record deploy_state =
  ds_store :: store
  ds_subs :: subscriptions
  activeDeployments :: "string \<rightharpoonup> deployment"
  ds_tasks :: "string \<rightharpoonup> task"

text \<open>The closure \<open>updateProgress\<close> of \<open>processDeployment\<close>.\<close>

definition updateProgress ::
  "clock \<Rightarrow> string \<Rightarrow> deployment_status \<Rightarrow> int \<Rightarrow> string \<Rightarrow> deployment
     \<Rightarrow> deployment \<times> effect list" where
  "updateProgress clk roomId st pr msg d =
     (d\<lparr>dep_status := st, dep_progress := pr,
        dep_logs := dep_logs d @ [''['' @ clk_iso clk @ ''] '' @ msg]\<rparr>,
      [Emit (ToRoom roomId) ''deployment-progress''
         (JObj [(''deploymentId'', JStr (dep_id d)), (''status'', JStr (status_name st)),
                (''progress'', JNum pr), (''message'', JStr msg),
                (''timestamp'', JNum (clk_now clk))])])"

text \<open>
  What the environment decides for the awaits of one run. The file-system and process
  calls of the task appear through their outcomes only. Consecutive awaits with no
  statement between them that touches the deployment are one suspension point: the writes
  of the project files (\<open>de_write\<close> is the first error among them), the two
  \<open>fileExists\<close> probes with the install command they lead to, and the awaits inside a
  provider function.
\<close>

record deploy_env =
  de_clock :: clock
  de_mkdir :: thrown
  de_write :: thrown
  de_hasPackageJson :: bool
  de_hasRequirements :: bool
  de_install :: thrown
  de_build :: "(string \<times> string) outcome"
  de_deploy :: "string outcome"
  de_persist :: thrown
  de_cleanup :: thrown
  de_failPersist :: thrown

text \<open>
  The synchronous part of the \<open>catch\<close> block, up to its awaited database update.
\<close>

definition fail_task :: "clock \<Rightarrow> string \<Rightarrow> deployment \<Rightarrow> pc \<times> deployment \<times> effect list" where
  "fail_task clk e d =
     (AwaitFailPersist e,
      d\<lparr>dep_status := Failed, dep_error := Some e, dep_endTime := Some (clk_now clk),
        dep_logs := dep_logs d @ [''[ERROR] '' @ e]\<rparr>,
      [Log (''Deployment '' @ dep_id d @ '' failed:'')])"

definition and_then ::
  "deployment \<times> effect list \<Rightarrow> (deployment \<Rightarrow> pc \<times> deployment \<times> effect list)
     \<Rightarrow> pc \<times> deployment \<times> effect list" where
  "and_then r k = (case r of (d, fx) \<Rightarrow> (case k d of (p, d', fx') \<Rightarrow> (p, d', fx @ fx')))"

text \<open>
  From \<open>updateProgress('deploying', 80, ...)\<close> to the provider call: the \<open>switch\<close> throws
  for a provider without a deploy function, before any await.
\<close>

definition begin_deploy :: "clock \<Rightarrow> task \<Rightarrow> deployment \<Rightarrow> pc \<times> deployment \<times> effect list" where
  "begin_deploy clk t d =
     and_then
       (updateProgress clk (t_roomId t) Deploying 80
          (''Deploying to '' @ provider_name (cfg_provider (t_config t)) @ ''...'') d)
       (\<lambda>d1. if cfg_provider (t_config t) = Aws \<or> cfg_provider (t_config t) = Heroku
             then fail_task clk
                    (''Deployment provider '' @ provider_name (cfg_provider (t_config t))
                       @ '' not yet implemented'') d1
             else (AwaitDeploy, d1, []))"

text \<open>From \<open>updateProgress('building', 70, ...)\<close> to the build command, if there is one.\<close>

definition build_stage :: "clock \<Rightarrow> task \<Rightarrow> deployment \<Rightarrow> pc \<times> deployment \<times> effect list" where
  "build_stage clk t d =
     and_then (updateProgress clk (t_roomId t) Building 70 ''Building project...'' d)
       (\<lambda>d1. if truthy (cfg_buildCommand (t_config t)) then (AwaitBuild, d1, [])
             else begin_deploy clk t d1)"

text \<open>
  The provider step. \<open>deployToGitHubPages\<close> only builds a URL. \<open>deployToDocker\<close> reads
  \<open>project.name\<close> where no \<open>project\<close> is in scope, so it throws whenever it gets that far.
\<close>

definition provider_outcome :: "deploy_env \<Rightarrow> task \<Rightarrow> string outcome" where
  "provider_outcome env t =
     (case cfg_provider (t_config t) of
        GithubPages \<Rightarrow>
          Returns (''https://'' @ room_name (t_room t) @ ''.github.io/''
                     @ project_name (t_project t))
      | Docker \<Rightarrow>
          (case de_deploy env of Throws m \<Rightarrow> Throws m
           | Returns u \<Rightarrow> Throws ''project is not defined'')
      | _ \<Rightarrow> de_deploy env)"

text \<open>\<open>prisma.deployment.update({ where: { id }, data })\<close>\<close>

definition update_db_deployment ::
  "string \<Rightarrow> (db_deployment \<Rightarrow> db_deployment) \<Rightarrow> store \<Rightarrow> store" where
  "update_db_deployment did f db =
     db\<lparr>deployments := map (\<lambda>r. if dbd_id r = did then f r else r) (deployments db)\<rparr>"

definition with_store :: "store \<Rightarrow> pc \<times> deployment \<times> effect list
     \<Rightarrow> pc \<times> deployment \<times> store \<times> effect list" where
  "with_store db r = (case r of (p, d, fx) \<Rightarrow> (p, d, db, fx))"

text \<open>
  One resumption of the task: the code from the await it is suspended at to the next
  await (or to its end).
\<close>

definition resume_task ::
  "deploy_env \<Rightarrow> task \<Rightarrow> deployment \<Rightarrow> store \<Rightarrow> pc \<times> deployment \<times> store \<times> effect list" where
  "resume_task env t d db =
     (let clk = de_clock env; roomId = t_roomId t in
      case t_pc t of
        AwaitMkdir \<Rightarrow>
          with_store db
            (case de_mkdir env of
               Some e \<Rightarrow> fail_task clk e d
             | None \<Rightarrow>
                 and_then (updateProgress clk roomId Building 20 ''Writing project files...'' d)
                   (\<lambda>d1. if t_files t = []
                         then and_then
                                (updateProgress clk roomId Building 40
                                   ''Installing dependencies...'' d1)
                                (\<lambda>d2. (AwaitInstall, d2, []))
                         else (AwaitWrite, d1, [])))
      | AwaitWrite \<Rightarrow>
          with_store db
            (case de_write env of
               Some e \<Rightarrow> fail_task clk e d
             | None \<Rightarrow>
                 and_then (updateProgress clk roomId Building 40 ''Installing dependencies...'' d)
                   (\<lambda>d1. (AwaitInstall, d1, [])))
      | AwaitInstall \<Rightarrow>
          with_store db
            (if de_hasPackageJson env then
               (case de_install env of
                  Some e \<Rightarrow> fail_task clk e d
                | None \<Rightarrow>
                    and_then
                      (updateProgress clk roomId Building 60
                         ''Dependencies installed successfully'' d)
                      (build_stage clk t))
             else if de_hasRequirements env then
               (case de_install env of
                  Some e \<Rightarrow> fail_task clk e d
                | None \<Rightarrow>
                    and_then
                      (updateProgress clk roomId Building 60
                         ''Python dependencies installed successfully'' d)
                      (build_stage clk t))
             else build_stage clk t d)
      | AwaitBuild \<Rightarrow>
          with_store db
            (case de_build env of
               Throws e \<Rightarrow> fail_task clk e d
             | Returns (stdout, stderr) \<Rightarrow>
                 begin_deploy clk t
                   (d\<lparr>dep_logs := dep_logs d @ [''Build output: '' @ stdout]
                        @ (if stderr = [] then [] else [''Build warnings: '' @ stderr])\<rparr>))
      | AwaitDeploy \<Rightarrow>
          with_store db
            (case provider_outcome env t of
               Throws e \<Rightarrow> fail_task clk e d
             | Returns deploymentUrl \<Rightarrow>
                 and_then
                   (updateProgress clk roomId Success 100
                      (''Deployment successful! URL: '' @ deploymentUrl) d)
                   (\<lambda>d1. (AwaitPersist,
                          d1\<lparr>dep_url := Some deploymentUrl,
                             dep_endTime := Some (clk_now clk)\<rparr>, [])))
      | AwaitPersist \<Rightarrow>
          (case de_persist env of
             Some e \<Rightarrow> with_store db (fail_task clk e d)
           | None \<Rightarrow>
               (AwaitCleanup, d,
                update_db_deployment (dep_id d)
                  (\<lambda>r. r\<lparr>dbd_status := ''SUCCESS'', dbd_url := dep_url d,
                         dbd_logs := dep_logs d, dbd_endedAt := dep_endTime d\<rparr>) db,
                [Emit (ToRoom roomId) ''team-deployment-success''
                   (JObj [(''deploymentId'', JStr (dep_id d)),
                          (''user'', user_json (t_user t)),
                          (''url'', opt_json (dep_url d)),
                          (''provider'', JStr (provider_name (cfg_provider (t_config t)))),
                          (''timestamp'', JNum (clk_now clk))])]))
      | AwaitCleanup \<Rightarrow>
          with_store db
            (case de_cleanup env of
               Some e \<Rightarrow> fail_task clk e d
             | None \<Rightarrow> (Finished, d, []))
      | AwaitFailPersist msg \<Rightarrow>
          (case de_failPersist env of
             Some e \<Rightarrow> (Finished, d, db, [])
           | None \<Rightarrow>
               (Finished, d,
                update_db_deployment (dep_id d)
                  (\<lambda>r. r\<lparr>dbd_status := ''FAILED'', dbd_error := Some msg,
                         dbd_logs := dep_logs d, dbd_endedAt := dep_endTime d\<rparr>) db,
                [Emit (ToRoom roomId) ''team-deployment-failed''
                   (JObj [(''deploymentId'', JStr (dep_id d)),
                          (''user'', user_json (t_user t)),
                          (''error'', JStr msg),
                          (''provider'', JStr (provider_name (cfg_provider (t_config t)))),
                          (''timestamp'', JNum (clk_now clk))]),
                 Emit (ToRoom roomId) ''deployment-error''
                   (JObj [(''deploymentId'', JStr (dep_id d)), (''message'', JStr msg)])]))
      | Finished \<Rightarrow> (Finished, d, db, []))"

text \<open>
  The event loop resuming the task of deployment \<open>did\<close>. The task works on the object it
  took from \<open>activeDeployments\<close> when it was called, the same one the handlers find there.
\<close>

definition resume :: "deploy_env \<Rightarrow> string \<Rightarrow> deploy_state \<Rightarrow> deploy_state \<times> effect list" where
  "resume env did s =
     (case (ds_tasks s did, activeDeployments s did) of
        (Some t, Some d) \<Rightarrow>
          (case resume_task env t d (ds_store s) of
             (p, d', db, fx) \<Rightarrow>
               (s\<lparr>ds_store := db,
                  activeDeployments := (activeDeployments s)(did \<mapsto> d'),
                  ds_tasks := (ds_tasks s)(did \<mapsto> t\<lparr>t_pc := p\<rparr>)\<rparr>, fx))
      | _ \<Rightarrow> (s, []))"

subsection \<open>start-deployment\<close>

record start_data =
  sd_token :: string
  sd_room :: string
  sd_project :: string
  sd_config :: deployment_config

text \<open>
  What the environment decides for one \<open>start-deployment\<close>: the clock, whether the user
  lookup, the project lookup and the insertion of the deployment row throw, and the id
  drawn by \<open>crypto.randomUUID()\<close>.
\<close>

record start_env =
  se_clock :: clock
  se_user :: thrown
  se_project :: thrown
  se_create :: thrown
  se_uuid :: string

definition start_failed :: "effect list" where
  "start_failed =
     [Log ''Start deployment error:'',
      Emit ToSender ''deployment-error'' (message ''Failed to start deployment'')]"

text \<open>
  The project found by the access filter, with its room and its files
  (\<open>include: { files: true, room: true }\<close>).
\<close>

definition project_files :: "store \<Rightarrow> project \<Rightarrow> project_file list" where
  "project_files db p = filter (\<lambda>f. file_projectId f = project_id p) (files db)"

definition find_project_with_room :: "store \<Rightarrow> string \<Rightarrow> string \<Rightarrow> (project \<times> room) option" where
  "find_project_with_room db pid u =
     (case find_project db pid u of
        None \<Rightarrow> None
      | Some p \<Rightarrow> map_option (Pair p) (project_room db p))"

text \<open>
  \<open>verify\<close> is \<open>jwt.verify\<close> with the server secret: the user id of the decoded token, or
  \<open>None\<close> where it throws. \<open>sid\<close> is the id of the requesting socket. The handler ends
  with the call of \<open>processDeployment\<close>, which runs to its first await.
\<close>

definition start_deployment ::
  "(string \<Rightarrow> string option) \<Rightarrow> start_env \<Rightarrow> deploy_state \<Rightarrow> string \<Rightarrow> start_data
     \<Rightarrow> deploy_state \<times> effect list" where
  "start_deployment verify env s sid dat =
     (let db = ds_store s; roomId = sd_room dat; clk = se_clock env; deploymentId = se_uuid env in
      case verify (sd_token dat) of
        None \<Rightarrow> (s, start_failed)
      | Some uid \<Rightarrow>
      (case se_user env of
        Some e \<Rightarrow> (s, start_failed)
      | None \<Rightarrow>
      (case find (\<lambda>u. user_id u = uid) (users db) of
        None \<Rightarrow> (s, [Emit ToSender ''deployment-error'' (message ''Authentication failed'')])
      | Some usr \<Rightarrow>
      (case se_project env of
        Some e \<Rightarrow> (s, start_failed)
      | None \<Rightarrow>
      (case find_project_with_room db (sd_project dat) (user_id usr) of
        None \<Rightarrow>
          (s, [Emit ToSender ''deployment-error''
                 (message ''Project not found or access denied'')])
      | Some (p, r) \<Rightarrow>
          (let deployment = \<lparr>dep_id = deploymentId, dep_status = Pending, dep_progress = 0,
                 dep_logs = [], dep_url = None, dep_error = None,
                 dep_startTime = clk_now clk, dep_endTime = None\<rparr>;
               s1 = s\<lparr>ds_subs := socket_join sid roomId (ds_subs s),
                      activeDeployments := (activeDeployments s)(deploymentId \<mapsto> deployment)\<rparr>
           in case se_create env of
                Some e \<Rightarrow> (s1, start_failed)
              | None \<Rightarrow>
                  (case updateProgress clk roomId Building 10 ''Preparing project files...''
                          deployment of
                     (d1, fx) \<Rightarrow>
                       (s1\<lparr>ds_store := db\<lparr>deployments := deployments db @
                               [\<lparr>dbd_id = deploymentId, dbd_projectId = sd_project dat,
                                 dbd_userId = user_id usr,
                                 dbd_provider = provider_upper (cfg_provider (sd_config dat)),
                                 dbd_status = ''PENDING'', dbd_config = sd_config dat,
                                 dbd_url = None, dbd_error = None, dbd_logs = [],
                                 dbd_endedAt = None\<rparr>]\<rparr>,
                           activeDeployments := (activeDeployments s1)(deploymentId \<mapsto> d1),
                           ds_tasks := (ds_tasks s1)(deploymentId \<mapsto>
                              \<lparr>t_pc = AwaitMkdir, t_config = sd_config dat, t_project = p,
                               t_files = project_files db p, t_room = r, t_user = usr,
                               t_roomId = roomId\<rparr>)\<rparr>,
                        [Emit ToSender ''deployment-started''
                           (JObj [(''deploymentId'', JStr deploymentId),
                                  (''status'', deployment_json deployment)]),
                         Emit (ToRoomExceptSender roomId) ''team-deployment-started''
                           (JObj [(''deploymentId'', JStr deploymentId),
                                  (''user'', user_json usr),
                                  (''provider'',
                                     JStr (provider_name (cfg_provider (sd_config dat)))),
                                  (''timestamp'', JNum (clk_now clk))])] @ fx))))))))"

subsection \<open>cancel-deployment\<close>

record cancel_data =
  ca_token :: string
  ca_deploymentId :: string
  ca_roomId :: string

definition cancel_failed :: "effect list" where
  "cancel_failed =
     [Log ''Cancel deployment error:'',
      Emit ToSender ''deployment-error'' (message ''Failed to cancel deployment'')]"

text \<open>
  \<open>upd\<close> is the outcome of the awaited \<open>prisma.deployment.update\<close>. The decoded token is
  bound to \<open>decoded\<close> and not used again.
\<close>

definition cancel_deployment ::
  "(string \<Rightarrow> string option) \<Rightarrow> thrown \<Rightarrow> int \<Rightarrow> deploy_state \<Rightarrow> cancel_data
     \<Rightarrow> deploy_state \<times> effect list" where
  "cancel_deployment verify upd now s dat =
     (let deploymentId = ca_deploymentId dat in
      case verify (ca_token dat) of
        None \<Rightarrow> (s, cancel_failed)
      | Some decoded \<Rightarrow>
          (case activeDeployments s deploymentId of
             None \<Rightarrow> (s, [])
           | Some deployment \<Rightarrow>
               (if dep_status deployment = Pending \<or> dep_status deployment = Building
                then
                  (let s1 = s\<lparr>activeDeployments := (activeDeployments s)(deploymentId \<mapsto>
                              deployment\<lparr>dep_status := Failed,
                                dep_error := Some ''Cancelled by user'',
                                dep_endTime := Some now\<rparr>)\<rparr>
                   in case upd of
                        Some e \<Rightarrow> (s1, cancel_failed)
                      | None \<Rightarrow>
                          (s1\<lparr>ds_store := update_db_deployment deploymentId
                                 (\<lambda>r. r\<lparr>dbd_status := ''FAILED'',
                                        dbd_error := Some ''Cancelled by user'',
                                        dbd_endedAt := Some now\<rparr>) (ds_store s)\<rparr>,
                           [Emit ToSender ''deployment-cancelled''
                              (JObj [(''deploymentId'', JStr deploymentId)]),
                            Emit (ToRoomExceptSender (ca_roomId dat))
                              ''team-deployment-cancelled''
                              (JObj [(''deploymentId'', JStr deploymentId),
                                     (''timestamp'', JNum now)])]))
                else (s, []))))"

subsection \<open>Interleavings\<close>

text \<open>
  Between two awaits nothing else runs; at an await the event loop may run any handler.
  A schedule lists what runs, in order, for one deployment: a resumption of its task or a
  \<open>cancel-deployment\<close> request. The history of a schedule is the status of the deployment
  after each of its steps.
\<close>

datatype action = Resume deploy_env | Cancel thrown int cancel_data

definition perform ::
  "(string \<Rightarrow> string option) \<Rightarrow> string \<Rightarrow> action \<Rightarrow> deploy_state \<Rightarrow> deploy_state" where
  "perform verify did a s =
     (case a of
        Resume env \<Rightarrow> fst (resume env did s)
      | Cancel upd now dat \<Rightarrow> fst (cancel_deployment verify upd now s dat))"

fun history ::
  "(string \<Rightarrow> string option) \<Rightarrow> string \<Rightarrow> action list \<Rightarrow> deploy_state
     \<Rightarrow> deployment_status option list" where
  "history verify did [] s = []"
| "history verify did (a # rest) s =
     map_option dep_status (activeDeployments (perform verify did a s) did)
       # history verify did rest (perform verify did a s)"

section \<open>Example data\<close>

definition alice :: user where
  "alice = \<lparr>user_id = ''u-alice'', user_name = ''Alice'', user_avatar = None\<rparr>"

definition mallory :: user where
  "mallory = \<lparr>user_id = ''u-mallory'', user_name = ''Mallory'', user_avatar = None\<rparr>"

definition public_room :: room where
  "public_room = \<lparr>room_id = ''r1'', room_name = ''demo'', ownerId = ''u-alice'',
     isPublic = True, members = [''u-alice'']\<rparr>"

definition demo_project :: project where
  "demo_project = \<lparr>project_id = ''p1'', project_name = ''site'', project_roomId = ''r1''\<rparr>"

definition demo_file :: project_file where
  "demo_file = \<lparr>file_id = ''f1'', file_name = ''a.txt'', file_path = ''a.txt'',
     file_content = ''v0'', file_language = ''text'', file_projectId = ''p1'', updatedAt = 50\<rparr>"

definition demo_store :: store where
  "demo_store = \<lparr>users = [alice, mallory], rooms = [public_room], projects = [demo_project],
     files = [demo_file], cursors = [], deployments = [], gitOperations = []\<rparr>"

definition demo_collab :: collab_state where
  "demo_collab = \<lparr>cs_store = demo_store, cs_subs = [(''s-alice'', ''r1'')]\<rparr>"

definition alice_conn :: conn where
  "alice_conn = \<lparr>conn_id = ''s-alice'', conn_userId = ''u-alice'', conn_user = alice\<rparr>"

definition mallory_conn :: conn where
  "mallory_conn = \<lparr>conn_id = ''s-mallory'', conn_userId = ''u-mallory'', conn_user = mallory\<rparr>"

definition demo_bridge :: bridge_state where
  "demo_bridge = \<lparr>bs_store = demo_store, bs_subs = [], bs_ideConnections = []\<rparr>"

definition alice_ide :: ide_socket where
  "alice_ide = \<lparr>ide_sid = ''i-alice'', ide_userId = Some ''u-alice'', ide_user = Some alice,
     ide_ideInfo = Some \<lparr>ide_type = ''vscode'', ide_version = ''1.90'',
       ide_workspacePath = ''/home/alice/site''\<rparr>\<rparr>"

definition mallory_ide :: ide_socket where
  "mallory_ide = \<lparr>ide_sid = ''i-mallory'', ide_userId = Some ''u-mallory'',
     ide_user = Some mallory,
     ide_ideInfo = Some \<lparr>ide_type = ''vscode'', ide_version = ''1.90'',
       ide_workspacePath = ''/home/mallory/w''\<rparr>\<rparr>"

text \<open>Stand-ins for the path library, and a file environment in which nothing throws.\<close>

definition demo_lib :: path_lib where
  "demo_lib = \<lparr>basename = (\<lambda>p. p), extname = (\<lambda>p. []), toLowerCase = (\<lambda>p. p)\<rparr>"

definition quiet_file_env :: file_env where
  "quiet_file_env = \<lparr>fe_find = None, fe_write = None, fe_newId = ''f-new'', fe_createdAt = 60\<rparr>"

definition newer_file :: sync_file where
  "newer_file = \<lparr>sf_relativePath = ''a.txt'', sf_content = ''v1'', sf_lastModified = 100\<rparr>"

definition other_file :: sync_file where
  "other_file = \<lparr>sf_relativePath = ''b.txt'', sf_content = ''w'', sf_lastModified = 70\<rparr>"

definition demo_sync :: sync_data where
  "demo_sync = \<lparr>sd_roomId = ''r1'', sd_projectId = ''p1'', sd_files = [newer_file, other_file]\<rparr>"

definition demo_cursor :: cursor_data where
  "demo_cursor = \<lparr>cud_roomId = ''r1'', cud_fileId = ''f1'', cud_position = 12, cud_line = 2,
     cud_column = 3, cud_selection = None\<rparr>"

definition demo_change :: code_change_data where
  "demo_change = \<lparr>ccd_roomId = ''r-elsewhere'', ccd_fileId = ''f1'', ccd_content = ''x'',
     ccd_changes = []\<rparr>"

definition remove_all :: command_data where
  "remove_all = \<lparr>cd_roomId = ''r1'', cd_projectId = ''p1'', cd_command = ''rm -rf /'',
     cd_workingDirectory = None\<rparr>"

definition run_tests :: command_data where
  "run_tests = \<lparr>cd_roomId = ''r1'', cd_projectId = ''p1'', cd_command = ''npm run test'',
     cd_workingDirectory = None\<rparr>"

definition tests_failed :: exec_error where
  "tests_failed = \<lparr>ee_message = ''Command failed: npm run test'', ee_stdout = Some ''1 failing'',
     ee_stderr = None\<rparr>"

definition git_status :: git_data where
  "git_status = \<lparr>gd_roomId = ''r1'', gd_projectId = ''p1'', gd_operation = ''status'',
     gd_params = \<lparr>gp_files = None, gp_message = None, gp_remote = None, gp_branch = None\<rparr>\<rparr>"

definition not_a_repository :: exec_error where
  "not_a_repository = \<lparr>ee_message = ''Command failed: git status --porcelain'',
     ee_stdout = Some [], ee_stderr = Some ''fatal: not a git repository''\<rparr>"

definition pull_all :: pull_data where
  "pull_all = \<lparr>pd_roomId = ''r1'', pd_projectId = ''p1'', pd_lastSync = None\<rparr>"

text \<open>A verifier that knows two tokens, and a deployment of the demo project.\<close>

definition demo_verify :: "string \<Rightarrow> string option" where
  "demo_verify tok =
     (if tok = ''t-alice'' then Some ''u-alice''
      else if tok = ''t-mallory'' then Some ''u-mallory'' else None)"

definition demo_clock :: clock where
  "demo_clock = \<lparr>clk_now = 1000, clk_iso = ''T''\<rparr>"

definition demo_config :: deployment_config where
  "demo_config = \<lparr>cfg_provider = Vercel, cfg_buildCommand = None, cfg_outputDirectory = None,
     cfg_environmentVariables = [], cfg_domain = None, cfg_framework = None,
     cfg_nodeVersion = None\<rparr>"

definition demo_start_env :: start_env where
  "demo_start_env = \<lparr>se_clock = demo_clock, se_user = None, se_project = None,
     se_create = None, se_uuid = ''d1''\<rparr>"

definition alice_start :: start_data where
  "alice_start = \<lparr>sd_token = ''t-alice'', sd_room = ''r1'', sd_project = ''p1'',
     sd_config = demo_config\<rparr>"

definition mallory_start :: start_data where
  "mallory_start = \<lparr>sd_token = ''t-mallory'', sd_room = ''r1'', sd_project = ''p1'',
     sd_config = demo_config\<rparr>"

definition demo_deploy :: deploy_state where
  "demo_deploy = \<lparr>ds_store = demo_store, ds_subs = [], activeDeployments = Map.empty,
     ds_tasks = Map.empty\<rparr>"

text \<open>An environment in which every stage of the task succeeds, and one in which the
  database update after the successful deploy throws.\<close>

definition quiet_env :: deploy_env where
  "quiet_env = \<lparr>de_clock = demo_clock, de_mkdir = None, de_write = None,
     de_hasPackageJson = False, de_hasRequirements = False, de_install = None,
     de_build = Returns ([], []), de_deploy = Returns ''https://site.vercel.app'',
     de_persist = None, de_cleanup = None, de_failPersist = None\<rparr>"

definition persist_fails_env :: deploy_env where
  "persist_fails_env = quiet_env\<lparr>de_persist := Some ''database unreachable''\<rparr>"

definition mallory_cancel :: cancel_data where
  "mallory_cancel = \<lparr>ca_token = ''t-mallory'', ca_deploymentId = ''d1'', ca_roomId = ''r1''\<rparr>"

text \<open>The state right after Alice's \<open>start-deployment\<close>: deployment \<open>d1\<close> is building.\<close>

definition started :: deploy_state where
  "started = fst (start_deployment demo_verify demo_start_env demo_deploy ''s-alice'' alice_start)"

section \<open>Properties\<close>

subsection \<open>Joining a room\<close>

lemma find_room_None_iff:
  "find_room db rid u = None \<longleftrightarrow>
     \<not> (\<exists>r \<in> set (rooms db). room_id r = rid \<and> room_access u r)"
  by (auto simp: find_room_def find_None_iff)

lemma in_socket_join:
  "p \<in> set (socket_join sid rid subs) \<longleftrightarrow> p = (sid, rid) \<or> p \<in> set subs"
  by (auto simp: socket_join_def)

text \<open>
  Claim C4, as the code has it. A connection that is not yet subscribed to the room is
  subscribed by \<open>join-room\<close> if and only if the room lookup returns and some room with the
  requested id has the caller as its owner or among its listed members; whether the room is
  public plays no part. When the lookup returns and the caller is neither owner nor member,
  the only effect is the error \<open>Room not found or access denied\<close> sent to the requester,
  and the state (the subscriptions with it) is unchanged.
\<close>

theorem join_room_owner_or_member:
  assumes "(conn_id c, roomId) \<notin> set (cs_subs s)"
  shows "((conn_id c, roomId) \<in> set (cs_subs (fst (join_room lookup now s c roomId))) \<longleftrightarrow>
            lookup = None \<and>
            (\<exists>r \<in> set (rooms (cs_store s)). room_id r = roomId \<and>
               (ownerId r = conn_userId c \<or> conn_userId c \<in> set (members r))))
       \<and> (lookup = None \<longrightarrow>
            \<not> (\<exists>r \<in> set (rooms (cs_store s)). room_id r = roomId \<and>
               (ownerId r = conn_userId c \<or> conn_userId c \<in> set (members r))) \<longrightarrow>
            join_room lookup now s c roomId =
              (s, [Emit ToSender ''error'' (message ''Room not found or access denied'')]))"
proof (cases lookup)
  case (Some e)
  with assms show ?thesis by (simp add: join_room_def)
next
  case None
  show ?thesis
  proof (cases "find_room (cs_store s) roomId (conn_userId c)")
    case absent: None
    then have "\<not> (\<exists>r \<in> set (rooms (cs_store s)).
                  room_id r = roomId \<and> room_access (conn_userId c) r)"
      by (simp add: find_room_None_iff)
    with None absent assms show ?thesis by (simp add: join_room_def room_access_def)
  next
    case (Some r)
    then have "\<exists>r \<in> set (rooms (cs_store s)).
                 room_id r = roomId \<and> room_access (conn_userId c) r"
      using find_room_None_iff[of "cs_store s" roomId "conn_userId c"] by simp
    with None Some show ?thesis
      by (simp add: join_room_def in_socket_join room_access_def)
  qed
qed

text \<open>
  At a concrete input: Mallory, neither owner nor member of room \<open>r1\<close>, is refused, the
  state stays as it was and the one event goes to her own socket.
\<close>

theorem join_room_owner_or_member_witness:
  "(conn_id mallory_conn, ''r1'') \<notin> set (cs_subs demo_collab) \<and>
   join_room None 0 demo_collab mallory_conn ''r1'' =
     (demo_collab, [Emit ToSender ''error'' (message ''Room not found or access denied'')])"
  using join_room_owner_or_member[of mallory_conn "''r1''" demo_collab None 0]
  by (simp add: demo_collab_def demo_store_def public_room_def mallory_conn_def)

text \<open>
  Claim C4 as stated fails: room \<open>r1\<close> is public, yet Mallory's \<open>join-room\<close> does not
  subscribe her connection and answers with the access-denied error.
\<close>

theorem join_room_public_counterexample:
  "isPublic public_room \<and> room_id public_room = ''r1''
   \<and> rooms (cs_store demo_collab) = [public_room]
   \<and> (conn_id mallory_conn, ''r1'') \<notin>
        set (cs_subs (fst (join_room None 0 demo_collab mallory_conn ''r1'')))
   \<and> snd (join_room None 0 demo_collab mallory_conn ''r1'') =
        [Emit ToSender ''error'' (message ''Room not found or access denied'')]"
  by (simp add: join_room_def find_room_def room_access_def demo_collab_def demo_store_def
      public_room_def mallory_conn_def)

subsection \<open>Reconciling files\<close>

lemma find_update_same:
  assumes "find P xs = Some ex"
    and "\<And>f. P (g f) = P f"
    and "sel ex"
  shows "find P (map (\<lambda>f. if sel f then g f else f) xs) = Some (g ex)"
  using assms(1,3)
proof (induction xs)
  case Nil
  then show ?case by simp
next
  case (Cons a xs)
  then show ?case using assms(2) by (auto split: if_splits)
qed

lemma find_by_path_updated:
  assumes "find_by_path db pid p = Some ex"
  shows "find_by_path (db\<lparr>files := update_file_content stamp (file_id ex) c (files db)\<rparr>) pid p
         = Some (ex\<lparr>file_content := c, updatedAt := stamp (updatedAt ex)\<rparr>)"
proof -
  let ?P = "\<lambda>f. file_projectId f = pid \<and> file_path f = p"
  let ?g = "\<lambda>f. f\<lparr>file_content := c, updatedAt := stamp (updatedAt f)\<rparr>"
  have "find ?P (files db) = Some ex" using assms by (simp add: find_by_path_def)
  then have "find ?P (map (\<lambda>f. if file_id f = file_id ex then ?g f else f) (files db))
               = Some (?g ex)"
    by (rule find_update_same) simp_all
  then show ?thesis by (simp add: find_by_path_def update_file_content_def)
qed

lemma find_append_new:
  "find P xs = None \<Longrightarrow> P y \<Longrightarrow> find P (xs @ [y]) = Some y"
  by (induction xs) (auto split: if_splits)

lemma find_append_other:
  "\<not> P y \<Longrightarrow> find P (xs @ [y]) = find P xs"
  by (induction xs) auto

lemma find_map_untouched:
  assumes "\<And>x. x \<in> set xs \<Longrightarrow> P x \<Longrightarrow> h x = x"
      and "\<And>x. P (h x) = P x"
  shows "find P (map h xs) = find P xs"
  using assms(1)
proof (induction xs)
  case Nil
  then show ?case by simp
next
  case (Cons a xs)
  then show ?case using assms(2) by auto
qed

lemma ids_update_file_content:
  "map file_id (update_file_content stamp i c fs) = map file_id fs"
  by (induction fs) (simp_all add: update_file_content_def)

lemma find_by_path_in_store:
  assumes "find_by_path db pid q = Some ex"
  shows "ex \<in> set (files db) \<and> file_path ex = q"
  using assms by (auto simp: find_by_path_def find_Some_iff)

text \<open>A write to the row of another path leaves the row of path p alone, ids being unique.\<close>

lemma update_other_path:
  assumes ex: "find_by_path db pid q = Some ex"
      and other: "q \<noteq> p"
      and keys: "distinct (map file_id (files db))"
  shows "find_by_path (db\<lparr>files := update_file_content stamp (file_id ex) c (files db)\<rparr>) pid p
         = find_by_path db pid p"
proof -
  let ?P = "\<lambda>f. file_projectId f = pid \<and> file_path f = p"
  let ?h = "\<lambda>f. if file_id f = file_id ex
                 then f\<lparr>file_content := c, updatedAt := stamp (updatedAt f)\<rparr> else f"
  from ex have in_store: "ex \<in> set (files db)" and path: "file_path ex = q"
    using find_by_path_in_store by blast+
  have inj: "inj_on file_id (set (files db))" using keys by (simp add: distinct_map)
  have untouched: "?h x = x" if "x \<in> set (files db)" and "?P x" for x
  proof -
    from that path other have "x \<noteq> ex" by auto
    with inj that(1) in_store have "file_id x \<noteq> file_id ex" by (auto dest: inj_onD)
    then show ?thesis by simp
  qed
  have "find ?P (map ?h (files db)) = find ?P (files db)"
    by (rule find_map_untouched) (use untouched in auto)
  then show ?thesis by (simp add: find_by_path_def update_file_content_def)
qed

lemma sync_one_other_path:
  assumes step: "sync_one lib stamp fe pid g db = (db', r, fx)"
      and other: "sf_relativePath g \<noteq> p"
      and keys: "distinct (map file_id (files db))"
  shows "find_by_path db' pid p = find_by_path db pid p"
proof (cases "fe_find fe")
  case (Some e)
  with step show ?thesis by (simp add: sync_one_def sync_failed_def)
next
  case None
  show ?thesis
  proof (cases "find_by_path db pid (sf_relativePath g)")
    case absent: None
    show ?thesis
    proof (cases "fe_write fe")
      case (Some e)
      with step None absent show ?thesis by (simp add: sync_one_def sync_failed_def)
    next
      case written: None
      with step None absent other show ?thesis
        by (auto simp: sync_one_def find_by_path_def find_append_other)
    qed
  next
    case (Some ex)
    show ?thesis
    proof (cases "sf_lastModified g > updatedAt ex \<and> fe_write fe = None")
      case True
      with step None Some have "db' = db\<lparr>files := update_file_content stamp (file_id ex)
                                   (sf_content g) (files db)\<rparr>"
        by (simp add: sync_one_def)
      then show ?thesis using update_other_path[OF Some other keys] by simp
    next
      case False
      with step None Some show ?thesis
        by (auto simp: sync_one_def sync_failed_def split: option.splits if_splits)
    qed
  qed
qed

lemma sync_one_ids:
  assumes "sync_one lib stamp fe pid g db = (db', r, fx)"
  shows "map file_id (files db') = map file_id (files db) \<or>
         map file_id (files db') = map file_id (files db) @ [fe_newId fe]"
  using assms
  by (auto simp: sync_one_def sync_failed_def ids_update_file_content
      split: option.splits if_splits)

lemma distinct_shift:
  "distinct (A @ x # B) \<Longrightarrow> A' = A \<or> A' = A @ [x] \<Longrightarrow> distinct (A' @ B)"
  by auto

lemma sync_loop_other_paths:
  assumes "\<forall>g \<in> set post. sf_relativePath g \<noteq> p"
      and "distinct (map file_id (files db) @ map (\<lambda>j. fe_newId (env j)) [i..<i + length post])"
  shows "find_by_path (fst (sync_loop lib stamp env pid i post db)) pid p = find_by_path db pid p"
  using assms
proof (induction post arbitrary: i db)
  case Nil
  then show ?case by simp
next
  case (Cons g post)
  obtain db' r fx where step: "sync_one lib stamp (env i) pid g db = (db', r, fx)"
    by (cases "sync_one lib stamp (env i) pid g db") auto
  have "[i..<Suc (i + length post)] = i # [Suc i..<Suc (i + length post)]"
    by (rule upt_conv_Cons) simp
  then have upt: "[i..<i + length (g # post)] = i # [Suc i..<Suc i + length post]"
    by simp
  from Cons.prems(2) have keys: "distinct (map file_id (files db))" by simp
  from Cons.prems(1) have other: "sf_relativePath g \<noteq> p" by simp
  have here: "find_by_path db' pid p = find_by_path db pid p"
    using sync_one_other_path[OF step other keys] .
  have "distinct (map file_id (files db) @
          fe_newId (env i) # map (\<lambda>j. fe_newId (env j)) [Suc i..<Suc i + length post])"
    using Cons.prems(2) unfolding upt by simp
  then have keys': "distinct (map file_id (files db') @
                 map (\<lambda>j. fe_newId (env j)) [Suc i..<Suc i + length post])"
    using sync_one_ids[OF step] by (rule distinct_shift)
  have "find_by_path (fst (sync_loop lib stamp env pid (Suc i) post db')) pid p
          = find_by_path db' pid p"
    using Cons.IH[OF _ keys'] Cons.prems(1) by simp
  moreover have "fst (sync_loop lib stamp env pid i (g # post) db)
                   = fst (sync_loop lib stamp env pid (Suc i) post db')"
    using step by (simp split: prod.splits)
  ultimately show ?case using here by simp
qed

lemma sync_loop_append:
  "sync_loop lib stamp env pid i (xs @ ys) db =
     (case sync_loop lib stamp env pid i xs db of
        (db1, rs, fx) \<Rightarrow>
          (case sync_loop lib stamp env pid (i + length xs) ys db1 of
             (db2, rs', fx') \<Rightarrow> (db2, rs @ rs', fx @ fx')))"
  by (induction xs arbitrary: i db) (auto split: prod.splits)

lemma sync_loop_length:
  "sync_loop lib stamp env pid i xs db = (db', rs, fx) \<Longrightarrow> length rs = length xs"
  by (induction xs arbitrary: i db db' rs fx) (auto split: prod.splits)

text \<open>
  Claim C2, for the whole handler. A registered socket with access to the project sends a
  batch; take any file of it: \<open>pre\<close> are the files before it and \<open>post\<close> those after.
  \<open>db1\<close> is the store the loop has reached when it gets to the file, \<open>db2\<close> and \<open>r\<close> are
  the store and the result the loop body leaves for it, and \<open>db3\<close> is the store the rest
  of the loop reaches from \<open>db2\<close>. Then:
  \<^item> the handler commits \<open>db3\<close> as the store and sends \<open>sync-complete\<close> to the requester
    with the results of all files in batch order, \<open>r\<close> at the file's position, followed
    by \<open>files-synced\<close> to the rest of the room;
  \<^item> \<open>r\<close> carries the file's path, and, the lookup of the stored file returning: if the
    path exists on the server and the incoming timestamp is strictly greater than the
    stored one, then (the write returning) \<open>r\<close> is \<open>updated\<close> and the stored content is the
    incoming content; if the path exists and the incoming timestamp is equal or earlier,
    \<open>r\<close> is \<open>skipped\<close> and the store is unchanged; if the path does not exist, then (the
    write returning) \<open>r\<close> is \<open>created\<close> and the stored content is the incoming content;
  \<^item> what the file's iteration left under its path is what the handler commits, when no
    later file of the batch names the same path and the ids of the stored files and those
    the store hands out to later files are pairwise different (they are primary keys).
  A call of the store that throws is the separate per-file outcome \<open>error\<close>.
\<close>

theorem sync_files_last_write_wins:
  assumes auth: "authenticated_user sock = Some u"
      and access: "find_project (bs_store s) (sd_projectId d) u = Some p"
      and batch: "sd_files d = pre @ file # post"
      and before: "sync_loop lib stamp env (sd_projectId d) 0 pre (bs_store s) = (db1, rs1, fx1)"
      and found: "fe_find (env (length pre)) = None"
      and step: "sync_one lib stamp (env (length pre)) (sd_projectId d) file db1 = (db2, r, fx)"
      and rest: "sync_loop lib stamp env (sd_projectId d) (Suc (length pre)) post db2
                   = (db3, rs3, fx3)"
  shows "sync_files None lib stamp env now s sock d =
           (s\<lparr>bs_store := db3,
              bs_ideConnections := touch_connection now (ide_sid sock) (bs_ideConnections s)\<rparr>,
            fx1 @ fx @ fx3 @
            [Emit ToSender ''sync-complete''
               (JObj [(''results'', JArr (map sync_result_json (rs1 @ r # rs3)))]),
             Emit (ToRoomExceptSender (sd_roomId d)) ''files-synced''
               (JObj [(''user'', opt_user_json (ide_user sock)),
                      (''ideType'', opt_json (map_option ide_type (ide_ideInfo sock))),
                      (''fileCount'', JNum (int (length (sd_files d)))),
                      (''timestamp'', JNum now)])])
       \<and> (rs1 @ r # rs3) ! length pre = r
       \<and> sr_path r = sf_relativePath file
       \<and> (case find_by_path db1 (sd_projectId d) (sf_relativePath file) of
            Some existingFile \<Rightarrow>
              if sf_lastModified file > updatedAt existingFile
              then fe_write (env (length pre)) = None \<longrightarrow>
                     sr_status r = Updated \<and>
                     map_option file_content
                       (find_by_path db2 (sd_projectId d) (sf_relativePath file))
                       = Some (sf_content file)
              else sr_status r = Skipped \<and> db2 = db1
          | None \<Rightarrow>
              fe_write (env (length pre)) = None \<longrightarrow>
                sr_status r = Created \<and>
                map_option file_content
                  (find_by_path db2 (sd_projectId d) (sf_relativePath file))
                  = Some (sf_content file))
       \<and> ((\<forall>g \<in> set post. sf_relativePath g \<noteq> sf_relativePath file) \<longrightarrow>
            distinct (map file_id (files db2) @
                      map (\<lambda>j. fe_newId (env j)) [Suc (length pre)..<Suc (length pre) + length post])
            \<longrightarrow>
            find_by_path db3 (sd_projectId d) (sf_relativePath file) =
            find_by_path db2 (sd_projectId d) (sf_relativePath file))"
proof -
  let ?pid = "sd_projectId d"
  have len: "length rs1 = length pre" using before by (rule sync_loop_length)
  have loop: "sync_loop lib stamp env ?pid 0 (sd_files d) (bs_store s)
                = (db3, rs1 @ r # rs3, fx1 @ fx @ fx3)"
    using before step rest by (simp add: batch sync_loop_append)
  have handler: "sync_files None lib stamp env now s sock d =
           (s\<lparr>bs_store := db3,
              bs_ideConnections := touch_connection now (ide_sid sock) (bs_ideConnections s)\<rparr>,
            fx1 @ fx @ fx3 @
            [Emit ToSender ''sync-complete''
               (JObj [(''results'', JArr (map sync_result_json (rs1 @ r # rs3)))]),
             Emit (ToRoomExceptSender (sd_roomId d)) ''files-synced''
               (JObj [(''user'', opt_user_json (ide_user sock)),
                      (''ideType'', opt_json (map_option ide_type (ide_ideInfo sock))),
                      (''fileCount'', JNum (int (length (sd_files d)))),
                      (''timestamp'', JNum now)])])"
    using auth access loop by (simp add: sync_files_def)
  have nth: "(rs1 @ r # rs3) ! length pre = r" using len by (simp add: nth_append)
  have path: "sr_path r = sf_relativePath file"
    using step by (auto simp: sync_one_def sync_failed_def split: option.splits if_splits)
  have decision: "(case find_by_path db1 ?pid (sf_relativePath file) of
            Some existingFile \<Rightarrow>
              if sf_lastModified file > updatedAt existingFile
              then fe_write (env (length pre)) = None \<longrightarrow>
                     sr_status r = Updated \<and>
                     map_option file_content (find_by_path db2 ?pid (sf_relativePath file))
                       = Some (sf_content file)
              else sr_status r = Skipped \<and> db2 = db1
          | None \<Rightarrow>
              fe_write (env (length pre)) = None \<longrightarrow>
                sr_status r = Created \<and>
                map_option file_content (find_by_path db2 ?pid (sf_relativePath file))
                  = Some (sf_content file))"
  proof (cases "find_by_path db1 ?pid (sf_relativePath file)")
    case None
    then have "find (\<lambda>f. file_projectId f = ?pid \<and> file_path f = sf_relativePath file)
                 (files db1) = None"
      by (simp add: find_by_path_def)
    then show ?thesis using None step found
      by (auto simp: sync_one_def find_by_path_def find_append_new)
  next
    case (Some ex)
    show ?thesis
    proof (cases "sf_lastModified file > updatedAt ex")
      case True
      then show ?thesis using Some step found find_by_path_updated[OF Some]
        by (auto simp: sync_one_def)
    next
      case False
      then show ?thesis using Some step found by (auto simp: sync_one_def)
    qed
  qed
  have kept: "find_by_path db3 ?pid (sf_relativePath file) =
              find_by_path db2 ?pid (sf_relativePath file)"
    if "\<forall>g \<in> set post. sf_relativePath g \<noteq> sf_relativePath file"
      and "distinct (map file_id (files db2) @
             map (\<lambda>j. fe_newId (env j)) [Suc (length pre)..<Suc (length pre) + length post])"
    using sync_loop_other_paths[OF that, of lib stamp ?pid] rest by simp
  from handler nth path decision kept show ?thesis by blast
qed


lemmas store_defs =
  demo_store_def demo_file_def demo_project_def public_room_def alice_def mallory_def

text \<open>
  At a concrete input, the scenario of the specification inside a batch of two: the server
  holds \<open>a.txt\<close> with timestamp 50, Alice's editor pushes \<open>a.txt\<close> with content \<open>v1\<close> and
  timestamp 100, then a new file \<open>b.txt\<close>. After the handler the store holds \<open>v1\<close> under
  \<open>a.txt\<close>.
\<close>

theorem sync_files_last_write_wins_witness:
  "authenticated_user alice_ide = Some ''u-alice''
   \<and> find_project (bs_store demo_bridge) (sd_projectId demo_sync) ''u-alice'' = Some demo_project
   \<and> sd_files demo_sync = [] @ newer_file # [other_file]
   \<and> map_option updatedAt (find_by_path demo_store ''p1'' ''a.txt'') = Some 50
   \<and> sf_lastModified newer_file = 100
   \<and> map_option file_content
       (find_by_path
          (bs_store (fst (sync_files None demo_lib (\<lambda>t. 60) (\<lambda>i. quiet_file_env) 5 demo_bridge
                            alice_ide demo_sync)))
          ''p1'' ''a.txt'') = Some ''v1''"
proof -
  let ?one = "sync_one demo_lib (\<lambda>t. 60) quiet_file_env ''p1'' newer_file demo_store"
  let ?rest = "sync_loop demo_lib (\<lambda>t. 60) (\<lambda>i. quiet_file_env) ''p1'' (Suc 0) [other_file]
                 (fst ?one)"
  have auth: "authenticated_user alice_ide = Some ''u-alice''"
    by (simp add: alice_ide_def authenticated_user_def)
  have access: "find_project (bs_store demo_bridge) (sd_projectId demo_sync) ''u-alice''
                  = Some demo_project"
    by (simp add: demo_bridge_def demo_sync_def store_defs find_project_def project_access_def
        project_room_def room_access_def)
  have batch: "sd_files demo_sync = [] @ newer_file # [other_file]"
    by (simp add: demo_sync_def)
  have before: "sync_loop demo_lib (\<lambda>t. 60) (\<lambda>i. quiet_file_env) (sd_projectId demo_sync) 0 []
                  (bs_store demo_bridge) = (demo_store, [], [])"
    by (simp add: demo_bridge_def)
  have found: "fe_find ((\<lambda>i. quiet_file_env) (length ([] :: sync_file list))) = None"
    by (simp add: quiet_file_env_def)
  have step: "sync_one demo_lib (\<lambda>t. 60) ((\<lambda>i. quiet_file_env) (length ([] :: sync_file list)))
                (sd_projectId demo_sync) newer_file demo_store
              = (fst ?one, fst (snd ?one), snd (snd ?one))"
    by (simp add: demo_sync_def)
  have rest: "sync_loop demo_lib (\<lambda>t. 60) (\<lambda>i. quiet_file_env) (sd_projectId demo_sync)
                (Suc (length ([] :: sync_file list))) [other_file] (fst ?one)
              = (fst ?rest, fst (snd ?rest), snd (snd ?rest))"
    by (simp add: demo_sync_def)
  note concl = sync_files_last_write_wins[OF auth access batch before found step rest, of 5]
  note handler = concl[THEN conjunct1]
  note decision = concl[THEN conjunct2, THEN conjunct2, THEN conjunct2, THEN conjunct1]
  note carried = concl[THEN conjunct2, THEN conjunct2, THEN conjunct2, THEN conjunct2]
  have stored: "find_by_path demo_store (sd_projectId demo_sync) (sf_relativePath newer_file)
                  = Some demo_file"
    by (simp add: find_by_path_def demo_sync_def newer_file_def store_defs)
  have newer: "sf_lastModified newer_file > updatedAt demo_file"
    by (simp add: newer_file_def demo_file_def)
  have written: "fe_write quiet_file_env = None"
    by (simp add: quiet_file_env_def)
  have after_step: "map_option file_content
          (find_by_path (fst ?one) (sd_projectId demo_sync) (sf_relativePath newer_file))
        = Some (sf_content newer_file)"
    using decision newer written by (simp add: stored)
  have ids: "map file_id (files (fst ?one)) = [''f1'']"
    by (simp add: sync_one_def quiet_file_env_def find_by_path_def newer_file_def store_defs
        update_file_content_def)
  have last: "\<forall>g \<in> set [other_file]. sf_relativePath g \<noteq> sf_relativePath newer_file"
    by (simp add: other_file_def newer_file_def)
  have keys: "distinct (map file_id (files (fst ?one)) @
                map (\<lambda>j. fe_newId quiet_file_env)
                  [Suc (length ([] :: sync_file list))..<
                   Suc (length ([] :: sync_file list)) + length [other_file]])"
    unfolding ids by (simp add: quiet_file_env_def)
  have kept: "find_by_path (fst ?rest) (sd_projectId demo_sync) (sf_relativePath newer_file)
        = find_by_path (fst ?one) (sd_projectId demo_sync) (sf_relativePath newer_file)"
    using carried last keys by blast
  have final: "bs_store (fst (sync_files None demo_lib (\<lambda>t. 60) (\<lambda>i. quiet_file_env) 5
                  demo_bridge alice_ide demo_sync)) = fst ?rest"
    by (simp add: handler)
  have "map_option file_content
          (find_by_path
             (bs_store (fst (sync_files None demo_lib (\<lambda>t. 60) (\<lambda>i. quiet_file_env) 5
                               demo_bridge alice_ide demo_sync)))
             (sd_projectId demo_sync) (sf_relativePath newer_file)) = Some (sf_content newer_file)"
    by (simp only: final kept after_step)
  then have content: "map_option file_content
          (find_by_path
             (bs_store (fst (sync_files None demo_lib (\<lambda>t. 60) (\<lambda>i. quiet_file_env) 5
                               demo_bridge alice_ide demo_sync)))
             ''p1'' ''a.txt'') = Some ''v1''"
    by (simp add: demo_sync_def newer_file_def)
  have old: "map_option updatedAt (find_by_path demo_store ''p1'' ''a.txt'') = Some 50"
    by (simp add: find_by_path_def store_defs)
  have lm: "sf_lastModified newer_file = 100" by (simp add: newer_file_def)
  from auth access batch old lm content show ?thesis by blast
qed

subsection \<open>Cursor updates\<close>

text \<open>
  Claim C3, as the code has it. When persisting the cursor row throws, the handler only
  writes the log line: nothing is sent to the sender, nothing is broadcast, and the state
  is unchanged. When persisting returns, the one effect is the \<open>cursor-update\<close> broadcast
  to the other subscribers of the room named in the request. The broadcast is made exactly
  when persistence succeeded.
\<close>

theorem cursor_update_only_when_persisted:
  "(upsert \<noteq> None \<longrightarrow> cursor_update upsert now s c d = (s, [Log ''Cursor update error:'']))
   \<and> (upsert = None \<longrightarrow>
        snd (cursor_update upsert now s c d) =
          [Emit (ToRoomExceptSender (cud_roomId d)) ''cursor-update''
             (JObj [(''fileId'', JStr (cud_fileId d)), (''position'', JNum (cud_position d)),
                    (''line'', JNum (cud_line d)), (''column'', JNum (cud_column d)),
                    (''selection'', opt_json (cud_selection d)),
                    (''user'', user_json (conn_user c)), (''timestamp'', JNum now)])])"
  by (cases upsert) (simp_all add: cursor_update_def)

theorem cursor_update_only_when_persisted_witness:
  "cursor_update (Some ''connection lost'') 7 demo_collab alice_conn demo_cursor =
     (demo_collab, [Log ''Cursor update error:''])
   \<and> snd (cursor_update None 7 demo_collab alice_conn demo_cursor) =
       [Emit (ToRoomExceptSender ''r1'') ''cursor-update''
          (JObj [(''fileId'', JStr ''f1''), (''position'', JNum 12), (''line'', JNum 2),
                 (''column'', JNum 3), (''selection'', JNull), (''user'', user_json alice),
                 (''timestamp'', JNum 7)])]"
  using cursor_update_only_when_persisted
          [of "Some ''connection lost''" 7 demo_collab alice_conn demo_cursor]
        cursor_update_only_when_persisted [of None 7 demo_collab alice_conn demo_cursor]
  by (simp add: demo_cursor_def alice_conn_def opt_json_def)

text \<open>
  Claim C3 as stated fails: the same request that is broadcast to room \<open>r1\<close> when the
  upsert returns produces no broadcast when the upsert throws; its only effect is the log
  line.
\<close>

theorem cursor_update_broadcast_counterexample:
  "Emit (ToRoomExceptSender ''r1'') ''cursor-update''
       (JObj [(''fileId'', JStr ''f1''), (''position'', JNum 12), (''line'', JNum 2),
              (''column'', JNum 3), (''selection'', JNull), (''user'', user_json alice),
              (''timestamp'', JNum 7)])
     \<in> set (snd (cursor_update None 7 demo_collab alice_conn demo_cursor))
   \<and> snd (cursor_update (Some ''connection lost'') 7 demo_collab alice_conn demo_cursor) =
       [Log ''Cursor update error:'']"
  by (simp add: cursor_update_def demo_cursor_def alice_conn_def opt_json_def)

subsection \<open>Running commands\<close>

lemma rm_not_allowed: "\<not> command_allowed ''rm -rf /''"
  by (simp add: command_allowed_def safeCommands_def)

text \<open>
  Claim C5. A request whose command starts with none of the allow-listed prefixes starts
  no process; its only effect is a \<open>command-error\<close> sent to the requester, with the message
  \<open>Command not allowed\<close> (on a socket that has not registered the authentication check
  comes first and the message is \<open>Not authenticated\<close>). The command \<open>rm -rf /\<close> starts no
  process, whatever the rest of the request. For an allowed command on a registered socket,
  an error of the execution is caught: the requester gets \<open>command-completed\<close> with
  \<open>success: false\<close> and the captured output, the room gets \<open>team-command-executed\<close> with
  \<open>success: false\<close>, and no \<open>command-error\<close> is sent.
\<close>

theorem execute_command_allow_list:
  "(\<not> command_allowed (cd_command d) \<longrightarrow>
      spawned (snd (execute_command run now s sock d)) = [] \<and>
      execute_command run now s sock d =
        (s, [Emit ToSender ''command-error''
               (message (if authenticated_user sock = None then ''Not authenticated''
                         else ''Command not allowed''))]))
   \<and> spawned (snd (execute_command run now s sock (d\<lparr>cd_command := ''rm -rf /''\<rparr>))) = []
   \<and> (authenticated_user sock \<noteq> None \<longrightarrow> command_allowed (cd_command d) \<longrightarrow>
        run = Inl err \<longrightarrow>
        execute_command run now s sock d =
          (s, [Emit ToSender ''command-started''
                 (JObj [(''command'', JStr (cd_command d)),
                        (''cwd'', opt_json (command_cwd sock d))]),
               Exec (cd_command d) (command_cwd sock d) (Some 300000),
               Log ''Command execution error:'',
               Emit ToSender ''command-completed''
                 (JObj [(''command'', JStr (cd_command d)),
                        (''stdout'', JStr (or_else (ee_stdout err) [])),
                        (''stderr'', JStr (or_else (ee_stderr err) (ee_message err))),
                        (''success'', JBool False), (''timestamp'', JNum now)]),
               Emit (ToRoomExceptSender (cd_roomId d)) ''team-command-executed''
                 (JObj [(''user'', opt_user_json (ide_user sock)),
                        (''command'', JStr (cd_command d)), (''success'', JBool False),
                        (''error'', JStr (ee_message err)),
                        (''timestamp'', JNum now)])]))"
  using rm_not_allowed by (auto simp: execute_command_def split: option.splits)

text \<open>
  At concrete inputs: Alice's registered editor asks for \<open>rm -rf /\<close> and is refused; it
  asks for \<open>npm run test\<close>, the tests fail, and the failure comes back as a result.
\<close>

theorem execute_command_allow_list_witness:
  "\<not> command_allowed (cd_command remove_all)
   \<and> execute_command (Inr ([], [])) 5 demo_bridge alice_ide remove_all =
       (demo_bridge, [Emit ToSender ''command-error'' (message ''Command not allowed'')])
   \<and> authenticated_user alice_ide \<noteq> None \<and> command_allowed (cd_command run_tests)
   \<and> execute_command (Inl tests_failed) 5 demo_bridge alice_ide run_tests =
       (demo_bridge,
        [Emit ToSender ''command-started''
           (JObj [(''command'', JStr ''npm run test''), (''cwd'', JStr ''/home/alice/site'')]),
         Exec ''npm run test'' (Some ''/home/alice/site'') (Some 300000),
         Log ''Command execution error:'',
         Emit ToSender ''command-completed''
           (JObj [(''command'', JStr ''npm run test''), (''stdout'', JStr ''1 failing''),
                  (''stderr'', JStr ''Command failed: npm run test''),
                  (''success'', JBool False), (''timestamp'', JNum 5)]),
         Emit (ToRoomExceptSender ''r1'') ''team-command-executed''
           (JObj [(''user'', user_json alice), (''command'', JStr ''npm run test''),
                  (''success'', JBool False),
                  (''error'', JStr ''Command failed: npm run test''),
                  (''timestamp'', JNum 5)])])"
  using execute_command_allow_list[of remove_all "Inr ([], [])" 5 demo_bridge alice_ide tests_failed]
        execute_command_allow_list[of run_tests "Inl tests_failed" 5 demo_bridge alice_ide tests_failed]
  by (simp add: remove_all_def run_tests_def tests_failed_def alice_ide_def
      authenticated_user_def command_allowed_def safeCommands_def command_cwd_def truthy_def
      opt_json_def or_else_def opt_user_json_def)

subsection \<open>Git operations\<close>

text \<open>
  Claim C7 at a failing input: Alice's registered editor asks for \<open>status\<close> and the git
  command fails. The requester gets a \<open>git-result\<close> with \<open>success: false\<close>; the state,
  and with it the table of audit records, is unchanged, and nothing is sent to the room.
\<close>

theorem git_failure_not_audited:
  "git_operation (Inl not_a_repository) None 5 demo_bridge alice_ide git_status =
     (demo_bridge,
      [Exec ''git status --porcelain'' (Some ''/home/alice/site'') None,
       Log ''Git operation error:'',
       git_result ''status'' [] ''fatal: not a git repository'' False])"
  by (simp add: git_operation_def authenticated_user_def registered_workspace_def alice_ide_def
      git_command_def git_status_def not_a_repository_def or_else_def Let_def)

text \<open>
  The same request when the command succeeds: the audit record is appended and the room is
  told.
\<close>

lemma git_success_audited:
  "git_operation (Inr (''M a.txt'', [])) None 5 demo_bridge alice_ide git_status =
     (demo_bridge\<lparr>bs_store := demo_store\<lparr>gitOperations :=
        [\<lparr>gop_userId = ''u-alice'', gop_projectId = ''p1'', gop_operation = ''status'',
          gop_command = ''git status --porcelain'', gop_result = ''M a.txt'',
          gop_success = True\<rparr>]\<rparr>\<rparr>,
      [Exec ''git status --porcelain'' (Some ''/home/alice/site'') None,
       git_result ''status'' ''M a.txt'' [] True,
       Emit (ToRoomExceptSender ''r1'') ''team-git-operation''
         (JObj [(''user'', user_json alice), (''operation'', JStr ''status''),
                (''success'', JBool True), (''timestamp'', JNum 5)])])"
  by (simp add: git_operation_def authenticated_user_def registered_workspace_def alice_ide_def
      git_command_def git_status_def Let_def demo_bridge_def demo_store_def opt_user_json_def)

subsection \<open>Pulling files\<close>

text \<open>
  Claim C9. For two sockets that are both authenticated, \<open>pull-files\<close> gives the same
  result for the same request, whoever their users are; and when the store answers, that
  result is the list of all files of the requested project that pass the \<open>since\<close> filter:
  neither the rooms nor their members are consulted.
\<close>

theorem pull_files_ignores_caller:
  assumes "authenticated_user sock \<noteq> None" and "authenticated_user sock' \<noteq> None"
  shows "pull_files lookup s sock d = pull_files lookup s sock' d
       \<and> (lookup = None \<longrightarrow>
            snd (pull_files lookup s sock d) =
              [Emit ToSender ''files-pulled''
                 (JObj [(''files'',
                    JArr (map pulled_file_json
                           (filter (pull_filter (pd_projectId d) (pd_lastSync d))
                              (files (bs_store s)))))])])"
  using assms by (auto simp: pull_files_def split: option.splits)

text \<open>
  At a concrete input: Mallory, who has no access to project \<open>p1\<close>, pulls the same files
  as its owner Alice, the file \<open>a.txt\<close> with its content.
\<close>

theorem pull_files_ignores_caller_witness:
  "authenticated_user mallory_ide \<noteq> None \<and> authenticated_user alice_ide \<noteq> None
   \<and> find_project demo_store ''p1'' ''u-mallory'' = None
   \<and> pull_files None demo_bridge mallory_ide pull_all = pull_files None demo_bridge alice_ide pull_all
   \<and> snd (pull_files None demo_bridge mallory_ide pull_all) =
       [Emit ToSender ''files-pulled'' (JObj [(''files'', JArr [pulled_file_json demo_file])])]"
proof -
  have m: "authenticated_user mallory_ide \<noteq> None"
    by (simp add: mallory_ide_def authenticated_user_def)
  have a: "authenticated_user alice_ide \<noteq> None"
    by (simp add: alice_ide_def authenticated_user_def)
  have no_access: "find_project demo_store ''p1'' ''u-mallory'' = None"
    by (simp add: store_defs find_project_def project_access_def project_room_def
        room_access_def)
  have pulled: "filter (pull_filter (pd_projectId pull_all) (pd_lastSync pull_all))
                  (files (bs_store demo_bridge)) = [demo_file]"
    by (simp add: pull_all_def pull_filter_def demo_bridge_def store_defs)
  note both = pull_files_ignores_caller[OF m a, of None demo_bridge pull_all]
  from both have same: "pull_files None demo_bridge mallory_ide pull_all =
      pull_files None demo_bridge alice_ide pull_all"
    by (rule conjunct1)
  from both have "snd (pull_files None demo_bridge mallory_ide pull_all) =
      [Emit ToSender ''files-pulled''
         (JObj [(''files'',
            JArr (map pulled_file_json
                   (filter (pull_filter (pd_projectId pull_all) (pd_lastSync pull_all))
                      (files (bs_store demo_bridge)))))])]"
    by blast
  then have "snd (pull_files None demo_bridge mallory_ide pull_all) =
      [Emit ToSender ''files-pulled'' (JObj [(''files'', JArr [pulled_file_json demo_file])])]"
    by (simp only: pulled list.map)
  with same m a no_access show ?thesis by blast
qed

subsection \<open>Code changes\<close>

lemma in_room_sockets: "x \<in> set (room_sockets subs rid) \<longleftrightarrow> (x, rid) \<in> set subs"
  by (force simp: room_sockets_def)

text \<open>
  Claim C10. Let the caller pass the access check of \<open>code-change\<close>, which looks at the
  file's own project and room, and let the store calls return. Then for any room id \<open>rid\<close>
  put in the request, the one effect is the \<open>code-change\<close> broadcast to room \<open>rid\<close>, and
  its recipients are exactly the sockets subscribed to \<open>rid\<close> other than the sender. The
  room id is not compared with the room of the file.
\<close>

theorem code_change_room_unchecked:
  assumes "find_file (cs_store s) (ccd_fileId d) (conn_userId c) = Some f"
  shows "snd (code_change None None stamp now s c (d\<lparr>ccd_roomId := rid\<rparr>)) =
           [Emit (ToRoomExceptSender rid) ''code-change''
              (JObj [(''fileId'', JStr (ccd_fileId d)), (''content'', JStr (ccd_content d)),
                     (''changes'', JArr (ccd_changes d)), (''user'', user_json (conn_user c)),
                     (''timestamp'', JNum now)])]
       \<and> (\<forall>x. x \<in> set (recipients (cs_subs s) (conn_id c) (ToRoomExceptSender rid)) \<longleftrightarrow>
              (x, rid) \<in> set (cs_subs s) \<and> x \<noteq> conn_id c)"
  using assms by (auto simp: code_change_def in_room_sockets)

text \<open>
  At a concrete input: Alice changes file \<open>f1\<close> of room \<open>r1\<close> and names the room
  \<open>r-elsewhere\<close>; the change is broadcast to \<open>r-elsewhere\<close>.
\<close>

theorem code_change_room_unchecked_witness:
  "find_file (cs_store demo_collab) ''f1'' ''u-alice'' = Some demo_file
   \<and> map_option project_roomId (file_project demo_store demo_file) = Some ''r1''
   \<and> snd (code_change None None (\<lambda>t. 60) 9 demo_collab alice_conn demo_change) =
       [Emit (ToRoomExceptSender ''r-elsewhere'') ''code-change''
          (JObj [(''fileId'', JStr ''f1''), (''content'', JStr ''x''), (''changes'', JArr []),
                 (''user'', user_json alice), (''timestamp'', JNum 9)])]"
  using code_change_room_unchecked[of demo_collab demo_change alice_conn demo_file "\<lambda>t. 60" 9
      "''r-elsewhere''"]
  by (simp add: demo_collab_def demo_change_def alice_conn_def store_defs find_file_def
      file_access_def file_project_def project_access_def project_room_def room_access_def)

subsection \<open>Starting a deployment\<close>

lemma find_project_None:
  assumes "\<forall>p \<in> set (projects db). project_id p = pid \<longrightarrow>
             (\<forall>r. project_room db p = Some r \<longrightarrow> ownerId r \<noteq> u \<and> u \<notin> set (members r))"
  shows "find_project db pid u = None"
  using assms
  by (auto simp: find_project_def find_None_iff project_access_def room_access_def
      split: option.splits)

text \<open>
  Claim C6. Let the token verify and its user exist (the caller is authenticated), and let
  the caller be neither the owner nor a member of the room of any project with the
  requested id. Then \<open>start-deployment\<close> leaves the whole state as it was, the in-memory
  table of deployments and the deployment rows of the store included, whatever the
  environment does; and when the two lookups return, its one effect is the error
  \<open>Project not found or access denied\<close> sent to the requester.
\<close>

theorem start_deployment_denied:
  assumes tok: "verify (sd_token dat) = Some uid"
      and usr: "find (\<lambda>u. user_id u = uid) (users (ds_store s)) = Some usr"
      and noacc: "\<forall>p \<in> set (projects (ds_store s)). project_id p = sd_project dat \<longrightarrow>
             (\<forall>r. project_room (ds_store s) p = Some r \<longrightarrow>
                ownerId r \<noteq> uid \<and> uid \<notin> set (members r))"
  shows "fst (start_deployment verify env s sid dat) = s
       \<and> (se_user env = None \<longrightarrow> se_project env = None \<longrightarrow>
            snd (start_deployment verify env s sid dat) =
              [Emit ToSender ''deployment-error''
                 (message ''Project not found or access denied'')])"
proof -
  have "user_id usr = uid" using usr by (auto dest: find_Some_iff[THEN iffD1])
  with noacc have "find_project (ds_store s) (sd_project dat) (user_id usr) = None"
    by (intro find_project_None) simp
  then have none: "find_project_with_room (ds_store s) (sd_project dat) (user_id usr) = None"
    by (simp add: find_project_with_room_def)
  show ?thesis using tok usr none
    by (auto simp: start_deployment_def Let_def split: option.splits)
qed

text \<open>
  At a concrete input: Mallory asks to deploy Alice's project \<open>p1\<close>; she gets the error
  and no deployment exists afterwards.
\<close>

theorem start_deployment_denied_witness:
  "demo_verify (sd_token mallory_start) = Some ''u-mallory''
   \<and> find (\<lambda>u. user_id u = ''u-mallory'') (users (ds_store demo_deploy)) = Some mallory
   \<and> start_deployment demo_verify demo_start_env demo_deploy ''s-mallory'' mallory_start =
       (demo_deploy,
        [Emit ToSender ''deployment-error'' (message ''Project not found or access denied'')])
   \<and> activeDeployments demo_deploy = Map.empty \<and> deployments (ds_store demo_deploy) = []"
  using start_deployment_denied[of demo_verify mallory_start "''u-mallory''" demo_deploy mallory
      demo_start_env "''s-mallory''"]
  by (simp add: demo_verify_def mallory_start_def demo_deploy_def demo_start_env_def store_defs
      project_room_def prod_eq_iff)

subsection \<open>Cancelling a deployment\<close>

lemmas demo_defs =
  started_def start_deployment_def demo_verify_def demo_start_env_def alice_start_def
  demo_deploy_def store_defs find_project_with_room_def find_project_def project_access_def
  project_room_def room_access_def updateProgress_def demo_clock_def Let_def demo_config_def
  project_files_def
  quiet_env_def persist_fails_env_def mallory_cancel_def

lemmas run_defs =
  perform_def resume_def resume_task_def cancel_deployment_def with_store_def and_then_def
  fail_task_def build_stage_def begin_deploy_def provider_outcome_def truthy_def
  update_db_deployment_def

lemma started_deployment:
  "activeDeployments started ''d1'' =
     Some \<lparr>dep_id = ''d1'', dep_status = Building, dep_progress = 10,
            dep_logs = [''[T] Preparing project files...''], dep_url = None, dep_error = None,
            dep_startTime = 1000, dep_endTime = None\<rparr>"
  by (simp add: demo_defs)

text \<open>
  Claim C8. Let the token verify, to any user at all, and let the named deployment be in the
  in-memory table with status \<open>pending\<close> or \<open>building\<close>. Then after \<open>cancel-deployment\<close>
  the deployment is \<open>failed\<close>, with the error \<open>Cancelled by user\<close> and the clock as its
  end time; and the request does the same with any other token that verifies: the handler
  never looks at who the caller is.
\<close>

theorem cancel_regardless_of_caller:
  assumes "verify (ca_token dat) = Some u"
      and "activeDeployments s (ca_deploymentId dat) = Some d"
      and "dep_status d = Pending \<or> dep_status d = Building"
  shows "activeDeployments (fst (cancel_deployment verify upd now s dat)) (ca_deploymentId dat) =
           Some (d\<lparr>dep_status := Failed, dep_error := Some ''Cancelled by user'',
                   dep_endTime := Some now\<rparr>)
       \<and> (\<forall>tok'. verify tok' \<noteq> None \<longrightarrow>
             cancel_deployment verify upd now s (dat\<lparr>ca_token := tok'\<rparr>) =
             cancel_deployment verify upd now s dat)"
  using assms by (auto simp: cancel_deployment_def Let_def split: option.splits)

text \<open>
  At a concrete input: Mallory, who has no access to the project, cancels the deployment
  \<open>d1\<close> that Alice started.
\<close>

theorem cancel_regardless_of_caller_witness:
  "demo_verify (ca_token mallory_cancel) = Some ''u-mallory''
   \<and> map_option dep_status (activeDeployments started (ca_deploymentId mallory_cancel))
       = Some Building
   \<and> map_option dep_status
       (activeDeployments (fst (cancel_deployment demo_verify None 2000 started mallory_cancel))
          ''d1'') = Some Failed
   \<and> map_option dep_endTime
       (activeDeployments (fst (cancel_deployment demo_verify None 2000 started mallory_cancel))
          ''d1'') = Some (Some 2000)"
proof -
  let ?d = "\<lparr>dep_id = ''d1'', dep_status = Building, dep_progress = 10,
             dep_logs = [''[T] Preparing project files...''], dep_url = None,
             dep_error = None, dep_startTime = 1000, dep_endTime = None\<rparr>"
  have tok: "demo_verify (ca_token mallory_cancel) = Some ''u-mallory''"
    by (simp add: demo_verify_def mallory_cancel_def)
  have dep: "activeDeployments started (ca_deploymentId mallory_cancel) = Some ?d"
    using started_deployment by (simp add: mallory_cancel_def)
  have st: "dep_status ?d = Pending \<or> dep_status ?d = Building" by simp
  have "activeDeployments (fst (cancel_deployment demo_verify None 2000 started mallory_cancel))
          (ca_deploymentId mallory_cancel) =
        Some (?d\<lparr>dep_status := Failed, dep_error := Some ''Cancelled by user'',
                  dep_endTime := Some 2000\<rparr>)"
    using cancel_regardless_of_caller[where verify = demo_verify and dat = mallory_cancel
        and u = "''u-mallory''" and s = started and d = ?d and upd = None and now = 2000]
      tok dep st
    by blast
  then show ?thesis using tok dep by (simp add: mallory_cancel_def)
qed

subsection \<open>The status of a deployment over time\<close>

text \<open>
  The handler itself keeps to the order of the states: it changes nothing in a deployment
  that is neither \<open>pending\<close> nor \<open>building\<close>.
\<close>

lemma cancel_leaves_later_states:
  assumes "activeDeployments s (ca_deploymentId dat) = Some d"
      and "dep_status d \<noteq> Pending" and "dep_status d \<noteq> Building"
  shows "cancel_deployment verify upd now s dat = (s, []) \<or>
         cancel_deployment verify upd now s dat = (s, cancel_failed)"
  using assms by (auto simp: cancel_deployment_def Let_def split: option.splits)

text \<open>
  Claim C1 at two failing inputs, both starting right after Alice's \<open>start-deployment\<close>
  (deployment \<open>d1\<close> is \<open>building\<close>, its task awaits \<open>fs.mkdir\<close>). First: a
  \<open>cancel-deployment\<close> arrives, then the task is resumed four times with every stage
  succeeding; the statuses are \<open>failed\<close>, \<open>building\<close>, \<open>building\<close>, \<open>deploying\<close>,
  \<open>success\<close>. Second: no cancellation; the task reaches \<open>success\<close> and the database
  update that follows throws; the statuses are \<open>building\<close>, \<open>building\<close>, \<open>deploying\<close>,
  \<open>success\<close>, \<open>failed\<close>.
\<close>

theorem terminal_status_overwritten:
  "history demo_verify ''d1''
     [Cancel None 2000 mallory_cancel, Resume quiet_env, Resume quiet_env, Resume quiet_env,
      Resume quiet_env] started
     = [Some Failed, Some Building, Some Building, Some Deploying, Some Success]
   \<and> history demo_verify ''d1''
     [Resume quiet_env, Resume quiet_env, Resume quiet_env, Resume quiet_env,
      Resume persist_fails_env] started
     = [Some Building, Some Building, Some Deploying, Some Success, Some Failed]"
  by (simp add: demo_defs run_defs)

end
